theory Spec2Isabelle
  imports Main "HOL-Library.Sublist" "HOL-Library.Multiset"
begin

section \<open>Python strings\<close>

text \<open>
  A Python \<open>str\<close> is a sequence of Unicode code points, and the operations the bot uses
  (\<open>in\<close>, \<open>startswith\<close>, \<open>lower\<close>, \<open>split\<close>, \<open>int\<close>) work on code points.
  A string is therefore a list of code points, each a natural number; \<open>str\<close> turns an
  ASCII literal into one, and the accented letters of the Portuguese texts are written
  by their code points (\<open>0xED\<close> is i with acute accent, and so on).
\<close>

type_synonym pystr = "nat list"

definition str :: "string \<Rightarrow> pystr" where
  "str s = map of_char s"

text \<open>\<open>s.startswith(p)\<close>.\<close>

fun startswith :: "pystr \<Rightarrow> pystr \<Rightarrow> bool" where
  "startswith s [] = True"
| "startswith [] (p # ps) = False"
| "startswith (c # cs) (p # ps) = (c = p \<and> startswith cs ps)"

text \<open>\<open>k in s\<close> for two strings: \<open>k\<close> occurs in \<open>s\<close> as a contiguous run.\<close>

fun contains :: "pystr \<Rightarrow> pystr \<Rightarrow> bool" where
  "contains [] k = (k = [])"
| "contains (c # cs) k = (startswith (c # cs) k \<or> contains cs k)"

text \<open>
  \<open>s.lower()\<close>. The table is exact on U+0000 to U+00FF: the ASCII capitals and the
  Latin-1 capitals U+00C0 to U+00DE (the multiplication sign U+00D7 apart) move up by
  32. Code points from U+0100 on are left as they are. Python's table does more there,
  but the only code points it sends into Latin-1 are the Kelvin sign (to k), the Angstrom
  sign (to a with ring), capital Y with diaeresis, capital sharp s and capital I with dot
  above (to i followed by a combining dot); no keyword of the bot contains k, a with
  ring, y with diaeresis or sharp s, and none ends in i, so the keyword tests below
  answer as Python does on every text.
\<close>

definition lower_cp :: "nat \<Rightarrow> nat" where
  "lower_cp c =
     (if 65 \<le> c \<and> c \<le> 90 then c + 32
      else if 192 \<le> c \<and> c \<le> 222 \<and> c \<noteq> 215 then c + 32
      else c)"

definition lower :: "pystr \<Rightarrow> pystr" where
  "lower s = map lower_cp s"

text \<open>
  \<open>s.split(sep)\<close> for a separator of one code point: the pieces between the
  occurrences of \<open>sep\<close>, always at least one piece.
\<close>

fun split :: "nat \<Rightarrow> pystr \<Rightarrow> pystr list" where
  "split sep [] = [[]]"
| "split sep (c # cs) =
     (if c = sep then [] # split sep cs
      else (case split sep cs of
              [] \<Rightarrow> [[c]]
            | p # ps \<Rightarrow> (c # p) # ps))"

text \<open>
  \<open>int(s)\<close> in base 10: white space is stripped at both ends, one sign may follow,
  then decimal digits, with single underscores allowed between digits. \<open>None\<close> is the
  \<open>ValueError\<close>. The white space is what \<open>int\<close> skips: tab to carriage return, the
  space, and the Unicode spaces from U+0085 on (the separators U+001C to U+001F, which
  \<open>str.strip\<close> removes, are not skipped by \<open>int\<close>). The limit of \<open>int\<close> on the number
  of digits lies above the length of a Telegram message.
\<close>

definition isspace :: "nat \<Rightarrow> bool" where
  "isspace c =
     ((9 \<le> c \<and> c \<le> 13) \<or> c = 32 \<or> c = 133 \<or> c = 160 \<or> c = 5760
      \<or> (8192 \<le> c \<and> c \<le> 8202) \<or> c = 8232 \<or> c = 8233 \<or> c = 8239 \<or> c = 8287
      \<or> c = 12288)"

definition strip :: "pystr \<Rightarrow> pystr" where
  "strip s = rev (dropWhile isspace (rev (dropWhile isspace s)))"

text \<open>
  \<open>int\<close> reads the decimal digits of every script: the code points with a decimal value
  in the Unicode character database, which come in runs of ten, from the digit zero to
  the digit nine of a script. \<open>decimal_zeros\<close> lists the digit zero of each run, as in
  Unicode 14.0 (the database of CPython 3.11): ASCII, Arabic-Indic, and so on, up to the
  segmented digits at U+1FBF0.
\<close>

definition decimal_zeros :: "nat list" where
  "decimal_zeros =
     [0x30, 0x660, 0x6F0, 0x7C0, 0x966, 0x9E6, 0xA66, 0xAE6, 0xB66, 0xBE6, 0xC66, 0xCE6,
      0xD66, 0xDE6, 0xE50, 0xED0, 0xF20, 0x1040, 0x1090, 0x17E0, 0x1810, 0x1946, 0x19D0,
      0x1A80, 0x1A90, 0x1B50, 0x1BB0, 0x1C40, 0x1C50, 0xA620, 0xA8D0, 0xA900, 0xA9D0,
      0xA9F0, 0xAA50, 0xABF0, 0xFF10, 0x104A0, 0x10D30, 0x11066, 0x110F0, 0x11136, 0x111D0,
      0x112F0, 0x11450, 0x114D0, 0x11650, 0x116C0, 0x11730, 0x118E0, 0x11950, 0x11C50,
      0x11D50, 0x11DA0, 0x16A60, 0x16AC0, 0x16B50, 0x1D7CE, 0x1D7D8, 0x1D7E2, 0x1D7EC,
      0x1D7F6, 0x1E140, 0x1E2F0, 0x1E950, 0x1FBF0]"

definition digit_value :: "nat \<Rightarrow> int option" where
  "digit_value c =
     (case find (\<lambda>z. z \<le> c \<and> c \<le> z + 9) decimal_zeros of
        None \<Rightarrow> None
      | Some z \<Rightarrow> Some (int c - int z))"

text \<open>
  \<open>digits acc after_digit s\<close> reads the rest of a numeral: \<open>acc\<close> is the value so far and
  \<open>after_digit\<close> says that the code point before was a digit (an underscore is legal
  only between two digits).
\<close>

fun digits :: "int \<Rightarrow> bool \<Rightarrow> pystr \<Rightarrow> int option" where
  "digits acc after_digit [] = (if after_digit then Some acc else None)"
| "digits acc after_digit (c # cs) =
     (if c = 95 then (if after_digit \<and> cs \<noteq> [] then digits acc False cs else None)
      else (case digit_value c of
              None \<Rightarrow> None
            | Some d \<Rightarrow> digits (10 * acc + d) True cs))"

definition py_int :: "pystr \<Rightarrow> int option" where
  "py_int s =
     (case strip s of
        [] \<Rightarrow> None
      | c # cs \<Rightarrow>
          if c = 45 then map_option uminus (digits 0 False cs)
          else if c = 43 then digits 0 False cs
          else digits 0 False (c # cs))"

section \<open>The document store\<close>

text \<open>
  The five collections of \<open>db.py\<close>, each a list of documents in insertion order, with
  the fields the code writes. The store is taken to answer every call: the exceptions of
  the driver are outside the model, so the writes that \<open>db.py\<close> wraps in \<open>try\<close> always
  report success. The timestamps that no branch of the program reads (\<open>created_at\<close>,
  \<open>last_active\<close>, \<open>scheduled_time\<close> and the one of an interaction record) and the
  extended profile of a user, which only the wording of a prompt reads, are left out.
  Times are microseconds on the clock read by \<open>datetime.now()\<close>.
\<close>

record user =
  user_id :: int
  user_name :: pystr
  role :: pystr
  groups :: "int list"

record ai_mediator_settings =
  intervention_frequency :: pystr
  activity_suggestions :: bool
  conflict_mediation :: bool
  support_private_chats :: bool

record group =
  group_id :: int
  group_name :: pystr
  theme :: pystr
  description :: pystr
  created_by :: int
  members :: "int list"
  max_members :: int
  ai_mediator_enabled :: bool
  mediator_settings :: ai_mediator_settings

record activity =
  activity_group_id :: int
  activity_type :: pystr
  title :: pystr
  activity_description :: pystr
  activity_created_by :: int
  participants :: "int list"
  status :: pystr
  duration :: int
  ai_guidance_enabled :: bool
  ai_guidance_notes :: pystr

record message =
  sender :: int
  in_group :: "int option"
  message_text :: pystr
  message_type :: pystr
  timestamp :: int

text \<open>One entry of the conversation history handed to the Oracle.\<close>

record turn =
  turn_role :: pystr
  turn_name :: "pystr option"
  turn_content :: pystr

text \<open>
  The prompt is a text rendered from a template, a group or user document and the
  conversation history. Only the Oracle and the audit record read it, so the model keeps
  the data the text is rendered from and leaves the fixed wording out. The participants
  of a group prompt are listed in the order of a Python \<open>set\<close> of integers in the source;
  the model lists them in order of first occurrence.
\<close>

datatype prompt =
  Group_mediation group "user list" "turn list"
| Individual_support user "turn list"

record interaction =
  interaction_type :: pystr
  interaction_prompt :: prompt
  interaction_response :: "pystr option"
  interaction_alert_needed :: bool

record database =
  users :: "user list"
  db_groups :: "group list"
  activities :: "activity list"
  messages :: "message list"
  interactions :: "interaction list"

definition get_user :: "database \<Rightarrow> int \<Rightarrow> user option" where
  "get_user db uid = find (\<lambda>u. user_id u = uid) (users db)"

definition get_group :: "database \<Rightarrow> int \<Rightarrow> group option" where
  "get_group db gid = find (\<lambda>g. group_id g = gid) (db_groups db)"

definition get_all_groups :: "database \<Rightarrow> group list" where
  "get_all_groups db = db_groups db"

text \<open>
  \<open>update_one(filter, {"$set": doc}, upsert=True)\<close> with a whole document: the first
  document the filter matches is replaced, and the document is added when none matches.
\<close>

fun upsert :: "('a \<Rightarrow> bool) \<Rightarrow> 'a \<Rightarrow> 'a list \<Rightarrow> 'a list" where
  "upsert p d [] = [d]"
| "upsert p d (x # xs) = (if p x then d # xs else x # upsert p d xs)"

text \<open>\<open>update_one(filter, update)\<close>: the first matching document is changed, if any.\<close>

fun update_one :: "('a \<Rightarrow> bool) \<Rightarrow> ('a \<Rightarrow> 'a) \<Rightarrow> 'a list \<Rightarrow> 'a list" where
  "update_one p f [] = []"
| "update_one p f (x # xs) = (if p x then f x # xs else x # update_one p f xs)"

text \<open>\<open>$addToSet\<close> on a list field.\<close>

definition add_to_set :: "int \<Rightarrow> int list \<Rightarrow> int list" where
  "add_to_set x xs = (if x \<in> set xs then xs else xs @ [x])"

definition default_settings :: ai_mediator_settings where
  "default_settings =
     \<lparr>intervention_frequency = str ''medium'', activity_suggestions = True,
      conflict_mediation = True, support_private_chats = True\<rparr>"

definition create_group ::
  "database \<Rightarrow> int \<Rightarrow> pystr \<Rightarrow> pystr \<Rightarrow> pystr \<Rightarrow> int \<Rightarrow> int \<Rightarrow> bool \<times> database" where
  "create_group db gid gname gtheme descr creator maxm =
     (let group_data =
            \<lparr>group_id = gid, group_name = gname, theme = gtheme, description = descr,
             created_by = creator, members = [creator], max_members = maxm,
             ai_mediator_enabled = True, mediator_settings = default_settings\<rparr>;
          db1 = db\<lparr>db_groups := upsert (\<lambda>g. group_id g = gid) group_data (db_groups db)\<rparr>;
          db2 = db1\<lparr>users :=
                  update_one (\<lambda>u. user_id u = creator)
                    (\<lambda>u. u\<lparr>groups := add_to_set gid (groups u)\<rparr>) (users db1)\<rparr>
      in (True, db2))"

definition update_group_ai_settings ::
  "database \<Rightarrow> int \<Rightarrow> ai_mediator_settings \<Rightarrow> bool \<times> database" where
  "update_group_ai_settings db gid ai_settings =
     (True, db\<lparr>db_groups :=
                update_one (\<lambda>g. group_id g = gid)
                  (\<lambda>g. g\<lparr>mediator_settings := ai_settings\<rparr>) (db_groups db)\<rparr>)"

text \<open>
  \<open>create_activity\<close> returns the identifier of the inserted document as a string; the
  model numbers the activities by their position in the collection.
\<close>

definition create_activity ::
  "database \<Rightarrow> int \<Rightarrow> pystr \<Rightarrow> pystr \<Rightarrow> pystr \<Rightarrow> int \<Rightarrow> int \<Rightarrow> nat option \<times> database" where
  "create_activity db gid atype atitle descr creator dur =
     (let activity_data =
            \<lparr>activity_group_id = gid, activity_type = atype, title = atitle,
             activity_description = descr, activity_created_by = creator,
             participants = [], status = str ''scheduled'', duration = dur,
             ai_guidance_enabled = True, ai_guidance_notes = []\<rparr>
      in (Some (length (activities db)), db\<lparr>activities := activities db @ [activity_data]\<rparr>))"

definition store_message :: "database \<Rightarrow> int \<Rightarrow> int option \<Rightarrow> pystr \<Rightarrow> int \<Rightarrow> database" where
  "store_message db uid gid txt now =
     db\<lparr>messages := messages db @
          [\<lparr>sender = uid, in_group = gid, message_text = txt,
            message_type = str ''text'', timestamp = now\<rparr>]\<rparr>"

text \<open>
  \<open>find(query).sort("timestamp", -1).limit(limit)\<close>: the documents matching on the
  group, on the user, or on both, newest first. Documents with the same timestamp come
  in insertion order here; the store does not promise an order for them.
\<close>

definition get_recent_messages ::
  "database \<Rightarrow> int option \<Rightarrow> int option \<Rightarrow> nat \<Rightarrow> message list" where
  "get_recent_messages db gid uid limit =
     take limit
       (sort_key (\<lambda>m. - timestamp m)
          (filter (\<lambda>m. (case gid of None \<Rightarrow> True | Some g \<Rightarrow> in_group m = Some g) \<and>
                       (case uid of None \<Rightarrow> True | Some u \<Rightarrow> sender m = u))
             (messages db)))"

definition store_ai_interaction ::
  "database \<Rightarrow> pystr \<Rightarrow> prompt \<Rightarrow> pystr option \<Rightarrow> bool \<Rightarrow> database" where
  "store_ai_interaction db itype p response alert_needed =
     db\<lparr>interactions := interactions db @
          [\<lparr>interaction_type = itype, interaction_prompt = p,
            interaction_response = response, interaction_alert_needed = alert_needed\<rparr>]\<rparr>"

section \<open>The Oracle\<close>

text \<open>
  \<open>LLMIntegration\<close>: the configuration read from the environment. What the HTTP call
  does is the world's part: the request raises, or a response arrives with a status and
  a body, and the body's \<open>choices[0].message.content\<close> is missing (the lookup raises),
  \<open>null\<close>, or a string. The request is made without a timeout; a request that is
  never answered is not among these answers.
\<close>

record llm_integration =
  api_key :: "pystr option"
  api_endpoint :: pystr
  model :: pystr
  alert_threshold :: int

datatype completion = Malformed | Null | Content pystr

datatype http_result = Request_exception | Response int completion

definition msg_no_api_key :: pystr where
  "msg_no_api_key =
     str ''Erro: API_KEY n'' @ [0xE3] @ str ''o configurada. Por favor, configure a vari'' @
     [0xE1] @ str ''vel de ambiente LLM_API_KEY.''"

definition msg_api_error :: pystr where
  "msg_api_error =
     str ''Desculpe, estou tendo dificuldades t'' @ [0xE9] @ str ''cnicas no momento.''"

definition msg_call_exception :: pystr where
  "msg_call_exception =
     str ''Desculpe, ocorreu um erro ao processar sua solicita'' @ [0xE7, 0xE3] @ str ''o.''"

definition msg_group_exception :: pystr where
  "msg_group_exception =
     str ''Desculpe, estou tendo dificuldades para processar a conversa neste momento.''"

text \<open>
  \<open>_call_llm_api\<close>. The result is \<open>None\<close> when the body's content is \<open>null\<close>, which the
  method returns as it is.
\<close>

definition call_llm_api :: "llm_integration \<Rightarrow> ('p \<Rightarrow> http_result) \<Rightarrow> 'p \<Rightarrow> pystr option" where
  "call_llm_api self post p =
     (if api_key self = None \<or> api_key self = Some [] then Some msg_no_api_key
      else (case post p of
              Request_exception \<Rightarrow> Some msg_call_exception
            | Response status_code body \<Rightarrow>
                if status_code = 200 then
                  (case body of
                     Malformed \<Rightarrow> Some msg_call_exception
                   | Null \<Rightarrow> None
                   | Content s \<Rightarrow> Some s)
                else Some msg_api_error))"

text \<open>
  The failure modes of the Oracle call: the credential is missing, the request raises,
  the response has another status than 200, or the body of a 200 response does not hold
  a completion where the code looks for it.
\<close>

definition oracle_failure :: "llm_integration \<Rightarrow> http_result \<Rightarrow> bool" where
  "oracle_failure self r =
     (api_key self = None \<or> api_key self = Some [] \<or>
      (case r of
         Request_exception \<Rightarrow> True
       | Response status_code body \<Rightarrow> status_code \<noteq> 200 \<or> body = Malformed))"

definition alert_keywords :: "pystr list" where
  "alert_keywords =
     [str ''suic'' @ [0xED] @ str ''dio'', str ''suicida'', str ''matar'', str ''morrer'',
      str ''machucar'', str ''desespero'', str ''desesperado'', str ''desesperada'',
      str ''emerg'' @ [0xEA] @ str ''ncia'', str ''crise'', str ''p'' @ [0xE2] @ str ''nico'',
      str ''viol'' @ [0xEA] @ str ''ncia'', str ''abuso'', str ''socorro'']"

text \<open>The loop \<open>for keyword in keywords: if keyword in s: return True\<close>, then \<open>False\<close>.\<close>

fun any_keyword_in :: "pystr list \<Rightarrow> pystr \<Rightarrow> bool" where
  "any_keyword_in [] s = False"
| "any_keyword_in (keyword # keywords) s =
     (if contains s keyword then True else any_keyword_in keywords s)"

text \<open>
  \<open>_analyze_for_alert\<close>, for a text that is a string. The method calls \<open>text.lower()\<close>
  first, so it raises on \<open>None\<close>; the callers below write that case out.
\<close>

definition analyze_for_alert :: "llm_integration \<Rightarrow> pystr \<Rightarrow> message list \<Rightarrow> bool" where
  "analyze_for_alert self txt context_messages =
     (let txt_lower = lower txt in any_keyword_in alert_keywords txt_lower)"

text \<open>The truth value of a reply in \<open>if ai_response:\<close>: \<open>None\<close> and the empty string are false.\<close>

definition truthy :: "pystr option \<Rightarrow> bool" where
  "truthy r = (case r of None \<Rightarrow> False | Some s \<Rightarrow> s \<noteq> [])"

text \<open>
  \<open>mediate_group_conversation\<close>. The participants are the stored users among the senders
  of the recent messages; the history is the recent messages oldest first, each with the
  role and name of its sender. When the Oracle's reply is \<open>None\<close>, \<open>_analyze_for_alert\<close>
  raises on \<open>None.lower()\<close> and the method's \<open>except\<close> branch returns its own apology.
  The result is the pair the method returns, with the store after the audit record.
\<close>

definition group_users :: "database \<Rightarrow> message list \<Rightarrow> user list" where
  "group_users db recent_messages =
     List.map_filter (get_user db) (remdups (map sender recent_messages))"

definition unknown_user :: "int \<Rightarrow> user" where
  "unknown_user uid =
     \<lparr>user_id = uid, user_name = str ''Desconhecido'', role = str ''unknown'', groups = []\<rparr>"

definition group_conversation :: "user list \<Rightarrow> message list \<Rightarrow> turn list" where
  "group_conversation us recent_messages =
     map (\<lambda>msg.
            let u = (case find (\<lambda>u. user_id u = sender msg) us of
                       None \<Rightarrow> unknown_user (sender msg)
                     | Some u \<Rightarrow> u)
            in \<lparr>turn_role =
                   (if role u = str ''autista'' then str ''user''
                    else if role u = str ''at'' then str ''assistant''
                    else str ''user''),
                turn_name = Some (user_name u),
                turn_content = message_text msg\<rparr>)
         (rev recent_messages)"

definition mediate_group_conversation ::
  "llm_integration \<Rightarrow> (prompt \<Rightarrow> http_result) \<Rightarrow> database \<Rightarrow> int \<Rightarrow> message list \<Rightarrow> int
     \<Rightarrow> (pystr option \<times> bool) \<times> database" where
  "mediate_group_conversation self post db gid recent_messages current_user_id =
     (case get_group db gid of
        None \<Rightarrow> ((None, False), db)
      | Some g \<Rightarrow>
          let us = group_users db recent_messages;
              conversation = group_conversation us recent_messages;
              p = Group_mediation g us conversation;
              response = call_llm_api self post p
          in (case response of
                None \<Rightarrow> ((Some msg_group_exception, False), db)
              | Some r \<Rightarrow>
                  let alert_needed = analyze_for_alert self r recent_messages
                  in ((Some r, alert_needed),
                      store_ai_interaction db (str ''group_mediation'') p (Some r) alert_needed)))"

text \<open>
  \<open>provide_individual_support\<close>. The history is the user's own last ten messages, oldest
  first. The alert is decided on the user's message. The \<open>except\<close> branch of the method
  covers exceptions of the store, which the model does not have.
\<close>

definition support_conversation :: "int \<Rightarrow> message list \<Rightarrow> turn list" where
  "support_conversation uid recent_messages =
     map (\<lambda>msg.
            if sender msg = uid
            then \<lparr>turn_role = str ''user'', turn_name = None, turn_content = message_text msg\<rparr>
            else \<lparr>turn_role = str ''assistant'', turn_name = None,
                  turn_content = message_text msg\<rparr>)
         (rev recent_messages)"

definition provide_individual_support ::
  "llm_integration \<Rightarrow> (prompt \<Rightarrow> http_result) \<Rightarrow> database \<Rightarrow> int \<Rightarrow> pystr
     \<Rightarrow> (pystr option \<times> bool) \<times> database" where
  "provide_individual_support self post db uid txt =
     (case get_user db uid of
        None \<Rightarrow> ((None, False), db)
      | Some u \<Rightarrow>
          if role u \<noteq> str ''autista'' then ((None, False), db)
          else
            let recent_messages = get_recent_messages db None (Some uid) 10;
                conversation = support_conversation uid recent_messages;
                p = Individual_support u conversation;
                response = call_llm_api self post p;
                alert_needed = analyze_for_alert self txt []
            in ((response, alert_needed),
                store_ai_interaction db (str ''individual_support'') p response alert_needed))"

section \<open>The moderation engine\<close>

text \<open>
  The state of the running bot: the store, the two global dictionaries of \<open>main.py\<close> and
  the messages sent so far, each with the chat it went to. What is sent is kept by kind
  and content rather than as the rendered Portuguese text. Sending is taken to succeed:
  the transport is outside the program.
\<close>

datatype outgoing =
  Mediator_reply pystr
| Group_alert pystr
| Assistant_reply pystr
| Support_alert pystr
| Age_range
| Age_digits
| Ask_gender
| Max_members_range
| Max_members_digits
| Group_created pystr int
| Group_create_failed
| Mediator_status bool pystr
| Mediator_status_failed
| Register_first
| Only_at_activities
| Create_group_first
| Select_group "(pystr \<times> int) list"
| Select_type pystr
| Ask_title pystr
| Ask_description pystr
| Ask_duration
| Duration_range
| Duration_digits
| Activity_created pystr pystr nat
| Activity_create_failed
| Cancelled
| Handler_error

record bot =
  db :: database
  group_message_timestamps :: "int \<rightharpoonup> int"
  private_chat_sessions :: "int \<rightharpoonup> int"
  sent :: "(int \<times> outgoing) list"

text \<open>
  An update: who sent it, in which chat, and its text (the \<open>data\<close> of a button press).
  The kind is Telegram's: a message that starts with a command entity, any other text
  message, or a callback query.
\<close>

datatype update_kind = Command | Text | Callback

record update =
  kind :: update_kind
  from_user :: int
  chat_id :: int
  chat_type :: pystr
  upd_text :: pystr

text \<open>
  What the world does while one update is handled: the clock readings of
  \<open>datetime.now()\<close> when the message is stored, when the throttle is checked and when
  the intervention (or the support session) is marked, and the answer of the HTTP call.
\<close>

record world =
  t_store :: int
  t_check :: int
  t_mark :: int
  post :: "prompt \<Rightarrow> http_result"

definition send_message :: "int \<Rightarrow> outgoing \<Rightarrow> bot \<Rightarrow> bot" where
  "send_message chat m st = st\<lparr>sent := sent st @ [(chat, m)]\<rparr>"

text \<open>
  Five minutes in microseconds: \<open>timedelta(minutes=5)\<close>. In \<open>should_ai_intervene\<close> the
  test \<open>not last_intervention\<close> is the test for a missing entry, a \<open>datetime\<close> being
  always true.
\<close>

definition five_minutes :: int where
  "five_minutes = 300000000"

definition should_ai_intervene :: "int \<Rightarrow> (int \<rightharpoonup> int) \<Rightarrow> int \<Rightarrow> bool" where
  "should_ai_intervene gid timestamps now =
     (case timestamps gid of
        None \<Rightarrow> True
      | Some last_intervention \<Rightarrow> now - last_intervention > five_minutes)"

definition support_keywords :: "pystr list" where
  "support_keywords =
     [str ''ajuda'', str ''ansioso'', str ''ansiosa'', str ''nervoso'', str ''nervosa'',
      str ''triste'', str ''confuso'', str ''confusa'', str ''dif'' @ [0xED] @ str ''cil'',
      str ''n'' @ [0xE3] @ str ''o consigo'', str ''problema'', str ''assustado'',
      str ''assustada'', str ''medo'', str ''sozinho'', str ''sozinha'']"

definition needs_support :: "pystr \<Rightarrow> bool" where
  "needs_support txt =
     (let message_lower = lower txt
      in if any_keyword_in support_keywords message_lower then True
         else if contains txt (str ''?'') \<or> contains txt (str ''!'') then True
         else False)"

definition handle_group_message :: "llm_integration \<Rightarrow> world \<Rightarrow> update \<Rightarrow> bot \<Rightarrow> bot" where
  "handle_group_message self w upd st =
     (let uid = from_user upd;
          chat = chat_id upd;
          txt = upd_text upd;
          st1 = st\<lparr>db := store_message (db st) uid (Some chat) txt (t_store w)\<rparr>
      in if chat_type upd = str ''group'' \<or> chat_type upd = str ''supergroup'' then
           (case get_group (db st1) chat of
              None \<Rightarrow> st1
            | Some g \<Rightarrow>
                if ai_mediator_enabled g then
                  if should_ai_intervene chat (group_message_timestamps st1) (t_check w) then
                    let recent_messages = get_recent_messages (db st1) (Some chat) None 10;
                        res = mediate_group_conversation self (post w) (db st1) chat
                                recent_messages uid;
                        ai_response = fst (fst res);
                        alert_needed = snd (fst res);
                        st2 = st1\<lparr>db := snd res\<rparr>
                    in (case ai_response of
                          None \<Rightarrow> st2
                        | Some r \<Rightarrow>
                            if r \<noteq> [] then
                              let st3 = send_message chat (Mediator_reply r) st2;
                                  st4 = st3\<lparr>group_message_timestamps :=
                                          (group_message_timestamps st3)(chat \<mapsto> t_mark w)\<rparr>
                              in if alert_needed then
                                   (let at_id = created_by g
                                    in if at_id \<noteq> 0
                                       then send_message at_id (Group_alert (group_name g)) st4
                                       else st4)
                                 else st4
                            else st2)
                  else st1
                else st1)
         else st1)"

text \<open>
  The loop over the groups of the user in \<open>handle_private_message\<close>, with the set of
  facilitators notified so far.
\<close>

fun notify_ats :: "pystr \<Rightarrow> int list \<Rightarrow> int set \<Rightarrow> bot \<Rightarrow> bot" where
  "notify_ats uname [] ats_notified st = st"
| "notify_ats uname (gid # gids) ats_notified st =
     (case get_group (db st) gid of
        None \<Rightarrow> notify_ats uname gids ats_notified st
      | Some g \<Rightarrow>
          let at_id = created_by g
          in if at_id \<noteq> 0 \<and> at_id \<notin> ats_notified
             then notify_ats uname gids (insert at_id ats_notified)
                    (send_message at_id (Support_alert uname) st)
             else notify_ats uname gids ats_notified st)"

definition handle_private_message :: "llm_integration \<Rightarrow> world \<Rightarrow> update \<Rightarrow> bot \<Rightarrow> bot" where
  "handle_private_message self w upd st =
     (let uid = from_user upd;
          txt = upd_text upd;
          st1 = st\<lparr>db := store_message (db st) uid None txt (t_store w)\<rparr>
      in (case get_user (db st1) uid of
            None \<Rightarrow> st1
          | Some u \<Rightarrow>
              if role u = str ''autista'' then
                let is_support_session = (private_chat_sessions st1 uid \<noteq> None)
                in if \<not> startswith txt (str ''/'') \<and> (is_support_session \<or> needs_support txt) then
                     let res = provide_individual_support self (post w) (db st1) uid txt;
                         ai_response = fst (fst res);
                         alert_needed = snd (fst res);
                         st2 = st1\<lparr>db := snd res\<rparr>
                     in (case ai_response of
                           None \<Rightarrow> st2
                         | Some r \<Rightarrow>
                             if r \<noteq> [] then
                               let st3 = send_message (chat_id upd) (Assistant_reply r) st2;
                                   st4 = (if \<not> is_support_session
                                          then st3\<lparr>private_chat_sessions :=
                                                 (private_chat_sessions st3)(uid \<mapsto> t_mark w)\<rparr>
                                          else st3)
                               in if alert_needed
                                  then notify_ats (user_name u) (groups u) {} st4
                                  else st4
                             else st2)
                   else st1
              else st1))"

text \<open>A run of the bot over a sequence of messages, each with what the world does meanwhile.\<close>

datatype event = Group_message world update | Private_message world update

fun handle :: "llm_integration \<Rightarrow> event \<Rightarrow> bot \<Rightarrow> bot" where
  "handle self (Group_message w upd) st = handle_group_message self w upd st"
| "handle self (Private_message w upd) st = handle_private_message self w upd st"

fun run :: "llm_integration \<Rightarrow> event list \<Rightarrow> bot \<Rightarrow> bot" where
  "run self [] st = st"
| "run self (e # es) st = run self es (handle self e st)"


section \<open>The conversation flows\<close>

text \<open>
  The states of \<open>main.py\<close> and \<open>ConversationHandler.END\<close>. The handlers return the
  numbers themselves, as the source does.
\<close>

definition GROUP_MAX :: int where "GROUP_MAX = 5"
definition ACTIVITY_TYPE :: int where "ACTIVITY_TYPE = 6"
definition ACTIVITY_TITLE :: int where "ACTIVITY_TITLE = 7"
definition ACTIVITY_DESC :: int where "ACTIVITY_DESC = 8"
definition ACTIVITY_DURATION :: int where "ACTIVITY_DURATION = 9"
definition PROFILE_AGE :: int where "PROFILE_AGE = 10"
definition PROFILE_GENDER :: int where "PROFILE_GENDER = 11"
definition END :: int where "END = - 1"

datatype error = KeyError | IndexError | ValueError

text \<open>
  \<open>context.user_data\<close>, the dictionary of one user, with the keys these handlers write;
  \<open>None\<close> is a key that is not set, and reading it with \<open>[...]\<close> is a \<open>KeyError\<close>.
\<close>

record user_data =
  ud_profile_age :: "int option"
  ud_group_name :: "pystr option"
  ud_group_theme :: "pystr option"
  ud_group_desc :: "pystr option"
  ud_group_max :: "int option"
  ud_at_groups :: "group list option"
  ud_activity_group_id :: "int option"
  ud_activity_group_name :: "pystr option"
  ud_activity_type :: "pystr option"
  ud_activity_type_name :: "pystr option"
  ud_activity_title :: "pystr option"
  ud_activity_desc :: "pystr option"
  ud_activity_duration :: "int option"

text \<open>
  A handler returns the next state or raises, and leaves the user's dictionary and the
  bot as they are at that point. Replies and edited messages go to the chat of the update.
\<close>

type_synonym handler_result = "(error + int) \<times> user_data \<times> bot"

definition process_profile_age :: "update \<Rightarrow> user_data \<Rightarrow> bot \<Rightarrow> handler_result" where
  "process_profile_age upd ud st =
     (case py_int (upd_text upd) of
        None \<Rightarrow> (Inr 10, ud, send_message (chat_id upd) Age_digits st)
      | Some age \<Rightarrow>
          if age < 5 \<or> age > 100
          then (Inr 10, ud, send_message (chat_id upd) Age_range st)
          else (Inr 11, ud\<lparr>ud_profile_age := Some age\<rparr>,
                send_message (chat_id upd) Ask_gender st))"

text \<open>
  \<open>process_group_max\<close>; \<open>now_s\<close> is \<open>int(time.time())\<close>, which becomes the group's
  identifier.
\<close>

definition process_group_max :: "int \<Rightarrow> update \<Rightarrow> user_data \<Rightarrow> bot \<Rightarrow> handler_result" where
  "process_group_max now_s upd ud st =
     (case py_int (upd_text upd) of
        None \<Rightarrow> (Inr 5, ud, send_message (chat_id upd) Max_members_digits st)
      | Some max_members_in \<Rightarrow>
          if max_members_in < 2 \<or> max_members_in > 50
          then (Inr 5, ud, send_message (chat_id upd) Max_members_range st)
          else
            let ud1 = ud\<lparr>ud_group_max := Some max_members_in\<rparr>;
                gid = now_s;
                uid = from_user upd
            in (case ud_group_name ud1 of
                  None \<Rightarrow> (Inl KeyError, ud1, st)
                | Some gname \<Rightarrow>
                    (case ud_group_theme ud1 of
                       None \<Rightarrow> (Inl KeyError, ud1, st)
                     | Some gtheme \<Rightarrow>
                         (case ud_group_desc ud1 of
                            None \<Rightarrow> (Inl KeyError, ud1, st)
                          | Some gdesc \<Rightarrow>
                              let res = create_group (db st) gid gname gtheme gdesc uid
                                          max_members_in;
                                  st1 = st\<lparr>db := snd res\<rparr>
                              in if fst res
                                 then (Inr (- 1), ud1,
                                       send_message (chat_id upd) (Group_created gname gid) st1)
                                 else (Inr (- 1), ud1,
                                       send_message (chat_id upd) Group_create_failed st1)))))"

text \<open>
  \<open>toggle_ai_mediator\<close>: the button data is \<open>ai_on_<id>\<close> or \<open>ai_off_<id>\<close>. The
  handler returns nothing; the result says whether it raised.
\<close>

definition toggle_ai_mediator :: "update \<Rightarrow> bot \<Rightarrow> error option \<times> bot" where
  "toggle_ai_mediator upd st =
     (case split 95 (upd_text upd) of
        p0 # ai_status # p2 # rest \<Rightarrow>
          (case py_int p2 of
             None \<Rightarrow> (Some ValueError, st)
           | Some gid \<Rightarrow>
               let ai_enabled = (ai_status = str ''on'');
                   ai_settings =
                     \<lparr>intervention_frequency = str ''medium'', activity_suggestions = True,
                      conflict_mediation = True, support_private_chats = True\<rparr>;
                   res = update_group_ai_settings (db st) gid ai_settings;
                   st1 = st\<lparr>db := snd res\<rparr>
               in if fst res then
                    let gname = (case get_group (db st1) gid of
                                   None \<Rightarrow> str ''Grupo''
                                 | Some g \<Rightarrow> group_name g)
                    in (None, send_message (chat_id upd) (Mediator_status ai_enabled gname) st1)
                  else (None, send_message (chat_id upd) Mediator_status_failed st1))
      | _ \<Rightarrow> (Some IndexError, st))"

subsection \<open>Activity creation\<close>

definition start_activity_command :: "update \<Rightarrow> user_data \<Rightarrow> bot \<Rightarrow> handler_result" where
  "start_activity_command upd ud st =
     (let uid = from_user upd
      in (case get_user (db st) uid of
            None \<Rightarrow> (Inr (- 1), ud, send_message (chat_id upd) Register_first st)
          | Some u \<Rightarrow>
              if role u \<noteq> str ''at''
              then (Inr (- 1), ud, send_message (chat_id upd) Only_at_activities st)
              else
                let all_groups = get_all_groups (db st);
                    at_groups = filter (\<lambda>g. created_by g = uid) all_groups
                in if at_groups = []
                   then (Inr (- 1), ud, send_message (chat_id upd) Create_group_first st)
                   else (Inr 6, ud\<lparr>ud_at_groups := Some at_groups\<rparr>,
                         send_message (chat_id upd)
                           (Select_group (map (\<lambda>g. (group_name g, group_id g)) at_groups)) st)))"

definition process_activity_group :: "update \<Rightarrow> user_data \<Rightarrow> bot \<Rightarrow> handler_result" where
  "process_activity_group upd ud st =
     (case split 95 (upd_text upd) of
        p0 # p1 # rest \<Rightarrow>
          (case py_int p1 of
             None \<Rightarrow> (Inl ValueError, ud, st)
           | Some gid \<Rightarrow>
               let ud1 = ud\<lparr>ud_activity_group_id := Some gid\<rparr>
               in (case ud_at_groups ud1 of
                     None \<Rightarrow> (Inl KeyError, ud1, st)
                   | Some at_groups \<Rightarrow>
                       let gname = (case find (\<lambda>g. group_id g = gid) at_groups of
                                      None \<Rightarrow> str ''Grupo''
                                    | Some g \<Rightarrow> group_name g);
                           ud2 = ud1\<lparr>ud_activity_group_name := Some gname\<rparr>
                       in (Inr 7, ud2, send_message (chat_id upd) (Select_type gname) st)))
      | _ \<Rightarrow> (Inl IndexError, ud, st))"

definition type_names :: "(pystr \<times> pystr) list" where
  "type_names =
     [(str ''discussao'', str ''Discuss'' @ [0xE3] @ str ''o Tem'' @ [0xE1] @ str ''tica''),
      (str ''projeto'', str ''Projeto Colaborativo''),
      (str ''jogo'', str ''Jogo Social''),
      (str ''compartilhamento'', str ''Compartilhamento de Interesses'')]"

definition process_activity_type :: "update \<Rightarrow> user_data \<Rightarrow> bot \<Rightarrow> handler_result" where
  "process_activity_type upd ud st =
     (case split 95 (upd_text upd) of
        p0 # atype # rest \<Rightarrow>
          let ud1 = ud\<lparr>ud_activity_type := Some atype\<rparr>;
              type_name = (case map_of type_names atype of None \<Rightarrow> atype | Some n \<Rightarrow> n);
              ud2 = ud1\<lparr>ud_activity_type_name := Some type_name\<rparr>
          in (Inr 8, ud2, send_message (chat_id upd) (Ask_title type_name) st)
      | _ \<Rightarrow> (Inl IndexError, ud, st))"

definition process_activity_title :: "update \<Rightarrow> user_data \<Rightarrow> bot \<Rightarrow> handler_result" where
  "process_activity_title upd ud st =
     (Inr 9, ud\<lparr>ud_activity_title := Some (upd_text upd)\<rparr>,
      send_message (chat_id upd) (Ask_description (upd_text upd)) st)"

definition process_activity_desc :: "update \<Rightarrow> user_data \<Rightarrow> bot \<Rightarrow> handler_result" where
  "process_activity_desc upd ud st =
     (Inr (- 1), ud\<lparr>ud_activity_desc := Some (upd_text upd)\<rparr>,
      send_message (chat_id upd) Ask_duration st)"

definition process_activity_duration :: "update \<Rightarrow> user_data \<Rightarrow> bot \<Rightarrow> handler_result" where
  "process_activity_duration upd ud st =
     (case py_int (upd_text upd) of
        None \<Rightarrow> (Inr 9, ud, send_message (chat_id upd) Duration_digits st)
      | Some dur \<Rightarrow>
          if dur < 5 \<or> dur > 180
          then (Inr 9, ud, send_message (chat_id upd) Duration_range st)
          else
            let ud1 = ud\<lparr>ud_activity_duration := Some dur\<rparr>;
                uid = from_user upd
            in (case ud_activity_group_id ud1 of
                  None \<Rightarrow> (Inl KeyError, ud1, st)
                | Some gid \<Rightarrow>
                    (case ud_activity_type ud1 of
                       None \<Rightarrow> (Inl KeyError, ud1, st)
                     | Some atype \<Rightarrow>
                         (case ud_activity_title ud1 of
                            None \<Rightarrow> (Inl KeyError, ud1, st)
                          | Some atitle \<Rightarrow>
                              (case ud_activity_desc ud1 of
                                 None \<Rightarrow> (Inl KeyError, ud1, st)
                               | Some adesc \<Rightarrow>
                                   let res = create_activity (db st) gid atype atitle adesc uid dur;
                                       st1 = st\<lparr>db := snd res\<rparr>
                                   in (case fst res of
                                         Some activity_id \<Rightarrow>
                                           (case ud_activity_group_name ud1 of
                                              None \<Rightarrow> (Inl KeyError, ud1, st1)
                                            | Some gname \<Rightarrow>
                                                (Inr (- 1), ud1,
                                                 send_message (chat_id upd)
                                                   (Activity_created atitle gname activity_id)
                                                   st1))
                                       | None \<Rightarrow>
                                           (Inr (- 1), ud1,
                                            send_message (chat_id upd) Activity_create_failed
                                              st1)))))))"

definition cancel :: "update \<Rightarrow> user_data \<Rightarrow> bot \<Rightarrow> handler_result" where
  "cancel upd ud st = (Inr (- 1), ud, send_message (chat_id upd) Cancelled st)"

text \<open>
  A \<open>ConversationHandler\<close> for one user in one chat. The conversation is in a state or
  there is none. Without a conversation only the entry point is tried; in a state the
  handlers registered for that state are tried, then the fallbacks; \<open>None\<close> means that
  the handler does not take the update, which then goes on to the handlers registered
  after it. When the chosen handler returns \<open>END\<close> the conversation is removed, another
  state is stored, and when it raises the state stays and the error handler of the
  dispatcher apologises. A command is matched on its exact text; arguments and the
  suffix naming the bot are not modelled.
\<close>

type_synonym conversation = "int option \<times> user_data \<times> bot"

definition is_command :: "pystr \<Rightarrow> update \<Rightarrow> bool" where
  "is_command cname upd = (kind upd = Command \<and> upd_text upd = str ''/'' @ cname)"

definition update_state :: "int option \<Rightarrow> update \<Rightarrow> handler_result \<Rightarrow> conversation" where
  "update_state cs upd res =
     (case fst res of
        Inl e \<Rightarrow> (cs, fst (snd res), send_message (chat_id upd) Handler_error (snd (snd res)))
      | Inr new_state \<Rightarrow>
          (if new_state = END then None else Some new_state, fst (snd res), snd (snd res)))"

text \<open>
  \<open>activity_creation_handler\<close> as \<open>main.py\<close> registers it: the state named
  \<open>ACTIVITY_TYPE\<close> takes the group button, \<open>ACTIVITY_TITLE\<close> the type button,
  \<open>ACTIVITY_DESC\<close> the title text and \<open>ACTIVITY_DURATION\<close> the description text.
  \<open>process_activity_duration\<close> is registered for no state.
\<close>

definition activity_creation_handler :: "update \<Rightarrow> conversation \<Rightarrow> conversation option" where
  "activity_creation_handler upd c =
     (let cs = fst c; ud = fst (snd c); st = snd (snd c)
      in (case cs of
            None \<Rightarrow>
              if is_command (str ''iniciar_atividade'') upd
              then Some (update_state cs upd (start_activity_command upd ud st))
              else None
          | Some s \<Rightarrow>
              if s = ACTIVITY_TYPE \<and> kind upd = Callback \<and>
                 startswith (upd_text upd) (str ''group_'')
              then Some (update_state cs upd (process_activity_group upd ud st))
              else if s = ACTIVITY_TITLE \<and> kind upd = Callback \<and>
                 startswith (upd_text upd) (str ''type_'')
              then Some (update_state cs upd (process_activity_type upd ud st))
              else if s = ACTIVITY_DESC \<and> kind upd = Text
              then Some (update_state cs upd (process_activity_title upd ud st))
              else if s = ACTIVITY_DURATION \<and> kind upd = Text
              then Some (update_state cs upd (process_activity_desc upd ud st))
              else if is_command (str ''cancel'') upd
              then Some (update_state cs upd (cancel upd ud st))
              else None))"

text \<open>
  The part of the dispatcher a facilitator's session goes through: the activity
  conversation first, and a text message it does not take goes to the message handler of
  its chat type. The other conversations and commands of \<open>main.py\<close> are not part of
  this model; an update for them leaves the session as it is.
\<close>

definition dispatch :: "llm_integration \<Rightarrow> world \<Rightarrow> update \<Rightarrow> conversation \<Rightarrow> conversation" where
  "dispatch self w upd c =
     (case activity_creation_handler upd c of
        Some c' \<Rightarrow> c'
      | None \<Rightarrow>
          if kind upd = Text \<and>
             (chat_type upd = str ''group'' \<or> chat_type upd = str ''supergroup'')
          then (fst c, fst (snd c), handle_group_message self w upd (snd (snd c)))
          else if kind upd = Text \<and> chat_type upd = str ''private''
          then (fst c, fst (snd c), handle_private_message self w upd (snd (snd c)))
          else c)"

fun dispatch_all :: "llm_integration \<Rightarrow> (world \<times> update) list \<Rightarrow> conversation \<Rightarrow> conversation" where
  "dispatch_all self [] c = c"
| "dispatch_all self (wu # wus) c = dispatch_all self wus (dispatch self (fst wu) (snd wu) c)"

section \<open>Notions used to state the properties\<close>

text \<open>
  The clock readings taken while an event is handled, in the order they are taken. The
  clock is monotone over a run when the readings of the whole run never decrease.
\<close>

fun readings :: "event \<Rightarrow> int list" where
  "readings (Group_message w upd) = [t_store w, t_check w, t_mark w]"
| "readings (Private_message w upd) = [t_store w, t_mark w]"

definition clock_monotone :: "event list \<Rightarrow> bool" where
  "clock_monotone es = sorted (concat (map readings es))"

text \<open>
  An intervention in a chat: handling the event from the given state sends a mediator
  reply into that chat.
\<close>

fun is_mediator_reply :: "outgoing \<Rightarrow> bool" where
  "is_mediator_reply (Mediator_reply r) = True"
| "is_mediator_reply m = False"

definition new_messages :: "bot \<Rightarrow> bot \<Rightarrow> (int \<times> outgoing) list" where
  "new_messages st st' = drop (length (sent st)) (sent st')"

definition intervention :: "llm_integration \<Rightarrow> event \<Rightarrow> bot \<Rightarrow> int \<Rightarrow> bool" where
  "intervention self e st chat =
     list_ex (\<lambda>cm. fst cm = chat \<and> is_mediator_reply (snd cm))
       (new_messages st (handle self e st))"





text \<open>
  The facilitators the loop \<open>notify_ats\<close> sends an alert to, in the order of sending.
\<close>

fun ats_to_notify :: "database \<Rightarrow> int list \<Rightarrow> int set \<Rightarrow> int list" where
  "ats_to_notify d [] ats_notified = []"
| "ats_to_notify d (gid # gids) ats_notified =
     (case get_group d gid of
        None \<Rightarrow> ats_to_notify d gids ats_notified
      | Some g \<Rightarrow>
          if created_by g \<noteq> 0 \<and> created_by g \<notin> ats_notified
          then created_by g # ats_to_notify d gids (insert (created_by g) ats_notified)
          else ats_to_notify d gids ats_notified)"

section \<open>Example data\<close>

text \<open>
  A small deployment used to run the definitions: Ana is an autistic member of three
  groups, two of them created by the facilitator Bia and one by the facilitator Caio.
\<close>

definition example_llm :: llm_integration where
  "example_llm =
     \<lparr>api_key = Some (str ''sk-test''),
      api_endpoint = str ''https://api.openai.com/v1/chat/completions'',
      model = str ''gpt-4'', alert_threshold = 70\<rparr>"

definition example_llm_no_key :: llm_integration where
  "example_llm_no_key = example_llm\<lparr>api_key := None\<rparr>"

definition example_group :: "int \<Rightarrow> pystr \<Rightarrow> int \<Rightarrow> group" where
  "example_group gid gname creator =
     \<lparr>group_id = gid, group_name = gname, theme = str ''jogos'', description = str ''conversa'',
      created_by = creator, members = [creator, 1], max_members = 10,
      ai_mediator_enabled = True,
      mediator_settings =
        \<lparr>intervention_frequency = str ''medium'', activity_suggestions = True,
         conflict_mediation = True, support_private_chats = True\<rparr>\<rparr>"

definition example_db :: database where
  "example_db =
     \<lparr>users =
        [\<lparr>user_id = 1, user_name = str ''Ana'', role = str ''autista'', groups = [100, 101, 102]\<rparr>,
         \<lparr>user_id = 2, user_name = str ''Bia'', role = str ''at'', groups = [100, 101]\<rparr>,
         \<lparr>user_id = 3, user_name = str ''Caio'', role = str ''at'', groups = [102]\<rparr>],
      db_groups =
        [example_group 100 (str ''Xadrez'') 2, example_group 101 (str ''Trens'') 2,
         example_group 102 (str ''Astronomia'') 3],
      activities = [], messages = [], interactions = []\<rparr>"

definition example_bot :: bot where
  "example_bot =
     \<lparr>db = example_db, group_message_timestamps = Map.empty,
      private_chat_sessions = Map.empty, sent = []\<rparr>"

definition example_world :: "int \<Rightarrow> http_result \<Rightarrow> world" where
  "example_world t r = \<lparr>t_store = t, t_check = t + 1, t_mark = t + 2, post = (\<lambda>p. r)\<rparr>"

definition private_text :: "pystr \<Rightarrow> update" where
  "private_text txt =
     \<lparr>kind = Text, from_user = 1, chat_id = 1, chat_type = str ''private'', upd_text = txt\<rparr>"

definition group_text :: "int \<Rightarrow> pystr \<Rightarrow> update" where
  "group_text chat txt =
     \<lparr>kind = Text, from_user = 1, chat_id = chat, chat_type = str ''group'', upd_text = txt\<rparr>"

definition example_event :: "int \<Rightarrow> event" where
  "example_event t =
     Group_message (example_world t (Response 200 (Content (str ''Oi''))))
       (group_text 100 (str ''bom dia''))"

text \<open>
  The facilitator Bia in her private chat with the bot, a user dictionary with nothing
  set, and a session in which she starts an activity for the group Xadrez and answers
  every question of the flow, the duration last.
\<close>

definition facilitator_update :: "update_kind \<Rightarrow> pystr \<Rightarrow> update" where
  "facilitator_update k t =
     \<lparr>kind = k, from_user = 2, chat_id = 2, chat_type = str ''private'', upd_text = t\<rparr>"

definition empty_user_data :: user_data where
  "empty_user_data =
     \<lparr>ud_profile_age = None, ud_group_name = None, ud_group_theme = None,
      ud_group_desc = None, ud_group_max = None, ud_at_groups = None,
      ud_activity_group_id = None, ud_activity_group_name = None, ud_activity_type = None,
      ud_activity_type_name = None, ud_activity_title = None, ud_activity_desc = None,
      ud_activity_duration = None\<rparr>"

definition activity_session :: "(world \<times> update) list" where
  "activity_session =
     map (\<lambda>u. (example_world 0 (Response 200 (Content (str ''Oi''))), u))
       [facilitator_update Command (str ''/iniciar_atividade''),
        facilitator_update Callback (str ''group_100''),
        facilitator_update Callback (str ''type_jogo''),
        facilitator_update Text (str ''Torneio''),
        facilitator_update Text (str ''Partidas curtas''),
        facilitator_update Text (str ''30'')]"

text \<open>
  The user dictionary after the three text questions of the group flow, and the same
  dictionary after the four questions of the activity flow that come before the duration
  (the dictionary of a user is kept from one flow to the next).
\<close>

definition group_user_data :: user_data where
  "group_user_data =
     empty_user_data\<lparr>ud_group_name := Some (str ''Musica''),
       ud_group_theme := Some (str ''bandas''), ud_group_desc := Some (str ''ouvir juntos'')\<rparr>"

definition activity_user_data :: user_data where
  "activity_user_data =
     group_user_data\<lparr>ud_activity_group_id := Some 100,
       ud_activity_group_name := Some (str ''Xadrez''), ud_activity_type := Some (str ''jogo''),
       ud_activity_type_name := Some (str ''Jogo Social''),
       ud_activity_title := Some (str ''Torneio''),
       ud_activity_desc := Some (str ''Partidas curtas'')\<rparr>"

definition created_group_bot :: bot where
  "created_group_bot =
     snd (snd (process_group_max 1700000000 (facilitator_update Text (str ''8''))
       group_user_data example_bot))"

text \<open>
  A store whose log holds twelve private messages with the timestamps 0 to 11 and the
  texts A to L, all sent by Ana except D, which Bia sent.
\<close>

definition example_message :: "int \<Rightarrow> nat \<Rightarrow> int \<Rightarrow> message" where
  "example_message uid letter t =
     \<lparr>sender = uid, in_group = None, message_text = [letter], message_type = str ''text'',
      timestamp = t\<rparr>"

definition example_log_db :: database where
  "example_log_db =
     example_db\<lparr>messages :=
       [example_message 1 65 0, example_message 1 66 1, example_message 1 67 2,
        example_message 2 68 3, example_message 1 69 4, example_message 1 70 5,
        example_message 1 71 6, example_message 1 72 7, example_message 1 73 8,
        example_message 1 74 9, example_message 1 75 10, example_message 1 76 11]\<rparr>"

section \<open>Properties of the strings\<close>

lemma startswith_prefix: "startswith s p = prefix p s"
  by (induction s p rule: startswith.induct) auto

lemma contains_sublist: "contains s k = sublist k s"
proof (induction s)
  case Nil
  show ?case by simp
next
  case (Cons c cs)
  then show ?case
    by (cases k) (simp_all add: startswith_prefix sublist_Cons_right)
qed

lemma contains_iff: "contains s k = (\<exists>before after. s = before @ k @ after)"
  by (simp add: contains_sublist sublist_def)

lemma any_keyword_in_iff: "any_keyword_in ks s = (\<exists>k \<in> set ks. contains s k)"
  by (induction ks) auto

section \<open>Properties of the Oracle call\<close>


lemma call_llm_api_failure:
  assumes "oracle_failure self (http p)"
  shows "call_llm_api self http p = Some msg_no_api_key \<or>
         call_llm_api self http p = Some msg_api_error \<or>
         call_llm_api self http p = Some msg_call_exception"
  using assms
  by (auto simp: oracle_failure_def call_llm_api_def split: http_result.splits completion.splits)



lemma no_alert_in_no_api_key: "analyze_for_alert self msg_no_api_key ctx = False"
  by (simp add: analyze_for_alert_def alert_keywords_def lower_def lower_cp_def str_def
      msg_no_api_key_def)

lemma no_alert_in_api_error: "analyze_for_alert self msg_api_error ctx = False"
  by (simp add: analyze_for_alert_def alert_keywords_def lower_def lower_cp_def str_def
      msg_api_error_def)

lemma no_alert_in_call_exception: "analyze_for_alert self msg_call_exception ctx = False"
  by (simp add: analyze_for_alert_def alert_keywords_def lower_def lower_cp_def str_def
      msg_call_exception_def)

text \<open>
  C9. The alert policy depends on the text alone: neither the configuration object it is
  called on nor the context messages change the answer, it reads and writes no state,
  and it answers true exactly when the lowercased text contains one of the alert
  keywords as a contiguous run.
\<close>

theorem analyze_for_alert_pure:
  "analyze_for_alert self1 txt ctx1 = analyze_for_alert self2 txt ctx2 \<and>
   analyze_for_alert self1 txt ctx1 =
     (\<exists>k \<in> set alert_keywords. \<exists>before after. lower txt = before @ k @ after)"
  by (simp add: analyze_for_alert_def any_keyword_in_iff contains_iff)

theorem analyze_for_alert_pure_witness:
  "analyze_for_alert
     \<lparr>api_key = None, api_endpoint = [], model = str ''gpt-4'', alert_threshold = 70\<rparr>
     (str ''SOCORRO!'') [] =
   analyze_for_alert
     \<lparr>api_key = Some (str ''sk''), api_endpoint = [], model = str ''gpt-4'', alert_threshold = 5\<rparr>
     (str ''SOCORRO!'')
     [\<lparr>sender = 1, in_group = None, message_text = str ''oi'', message_type = str ''text'',
       timestamp = 0\<rparr>] \<and>
   analyze_for_alert
     \<lparr>api_key = None, api_endpoint = [], model = str ''gpt-4'', alert_threshold = 70\<rparr>
     (str ''SOCORRO!'') []"
  using analyze_for_alert_pure
    [of "\<lparr>api_key = None, api_endpoint = [], model = str ''gpt-4'', alert_threshold = 70\<rparr>"
        "str ''SOCORRO!''" "[]"
        "\<lparr>api_key = Some (str ''sk''), api_endpoint = [], model = str ''gpt-4'',
          alert_threshold = 5\<rparr>"
        "[\<lparr>sender = 1, in_group = None, message_text = str ''oi'', message_type = str ''text'',
           timestamp = 0\<rparr>]"]
  by (simp add: analyze_for_alert_def alert_keywords_def lower_def lower_cp_def str_def)

section \<open>Properties of the handlers\<close>

lemma mediate_group_conversation_frame:
  "messages (snd (mediate_group_conversation self http d gid recent uid)) = messages d"
  "users (snd (mediate_group_conversation self http d gid recent uid)) = users d"
  "db_groups (snd (mediate_group_conversation self http d gid recent uid)) = db_groups d"
  by (simp_all add: mediate_group_conversation_def store_ai_interaction_def Let_def
      split: option.splits)

lemma provide_individual_support_frame:
  "messages (snd (provide_individual_support self http d uid txt)) = messages d"
  "users (snd (provide_individual_support self http d uid txt)) = users d"
  "db_groups (snd (provide_individual_support self http d uid txt)) = db_groups d"
  by (simp_all add: provide_individual_support_def store_ai_interaction_def Let_def
      split: option.splits)

lemma send_message_simps [simp]:
  "db (send_message c m st) = db st"
  "sent (send_message c m st) = sent st @ [(c, m)]"
  "group_message_timestamps (send_message c m st) = group_message_timestamps st"
  "private_chat_sessions (send_message c m st) = private_chat_sessions st"
  by (simp_all add: send_message_def)

lemma notify_ats_frame [simp]:
  "db (notify_ats uname gids notified st) = db st"
  "group_message_timestamps (notify_ats uname gids notified st) = group_message_timestamps st"
  "private_chat_sessions (notify_ats uname gids notified st) = private_chat_sessions st"
  by (induction uname gids notified st rule: notify_ats.induct;
      simp add: Let_def split: option.splits)+

lemma handle_group_message_stores:
  "messages (db (handle_group_message self w upd st)) =
     messages (db st) @
       [\<lparr>sender = from_user upd, in_group = Some (chat_id upd), message_text = upd_text upd,
         message_type = str ''text'', timestamp = t_store w\<rparr>]"
  by (simp add: handle_group_message_def Let_def mediate_group_conversation_frame
      store_message_def split: option.splits)

lemma handle_private_message_stores:
  "messages (db (handle_private_message self w upd st)) =
     messages (db st) @
       [\<lparr>sender = from_user upd, in_group = None, message_text = upd_text upd,
         message_type = str ''text'', timestamp = t_store w\<rparr>]"
  by (simp add: handle_private_message_def Let_def provide_individual_support_frame
      store_message_def split: option.splits)

text \<open>
  C7. Both message handlers add the inbound message to the message log whatever the
  moderation does afterwards: for every state, update, Oracle answer and clock, the log
  after the handler is the log before it followed by the new message. No condition on
  the group, the mediator flag, the throttle, the sender's role or the support heuristic
  is needed, because the store is written before any of them is read.
\<close>

theorem message_stored_first:
  "messages (db (handle_group_message self w upd st)) =
     messages (db st) @
       [\<lparr>sender = from_user upd, in_group = Some (chat_id upd), message_text = upd_text upd,
         message_type = str ''text'', timestamp = t_store w\<rparr>] \<and>
   messages (db (handle_private_message self w upd st)) =
     messages (db st) @
       [\<lparr>sender = from_user upd, in_group = None, message_text = upd_text upd,
         message_type = str ''text'', timestamp = t_store w\<rparr>]"
  by (simp add: handle_group_message_stores handle_private_message_stores)

theorem message_stored_first_witness:
  "messages (db (handle_group_message example_llm_no_key (example_world 5 Request_exception)
      (group_text 999 (str ''oi'')) example_bot)) =
     [\<lparr>sender = 1, in_group = Some 999, message_text = str ''oi'',
       message_type = str ''text'', timestamp = 5\<rparr>] \<and>
   messages (db (handle_private_message example_llm_no_key (example_world 5 Request_exception)
      (private_text (str ''/start'')) example_bot)) =
     [\<lparr>sender = 1, in_group = None, message_text = str ''/start'',
       message_type = str ''text'', timestamp = 5\<rparr>]"
  using
    message_stored_first [of example_llm_no_key "example_world 5 Request_exception"
      "group_text 999 (str ''oi'')" example_bot]
    message_stored_first [of example_llm_no_key "example_world 5 Request_exception"
      "private_text (str ''/start'')" example_bot]
  by (simp add: example_bot_def example_db_def example_world_def group_text_def
      private_text_def)

lemma mediate_group_conversation_alert:
  assumes "get_group d gid = Some g"
    and "call_llm_api self http
           (Group_mediation g (group_users d recent)
              (group_conversation (group_users d recent) recent)) = Some r"
  shows "mediate_group_conversation self http d gid recent uid =
           ((Some r, analyze_for_alert self r recent),
            store_ai_interaction d (str ''group_mediation'')
              (Group_mediation g (group_users d recent)
                 (group_conversation (group_users d recent) recent))
              (Some r) (analyze_for_alert self r recent))"
  using assms by (simp add: mediate_group_conversation_def Let_def)

lemma mediate_group_conversation_failure:
  assumes "get_group d gid = Some g" and "\<forall>q. oracle_failure self (http q)"
  shows "(fst (fst (mediate_group_conversation self http d gid recent uid)) = Some msg_no_api_key \<or>
          fst (fst (mediate_group_conversation self http d gid recent uid)) = Some msg_api_error \<or>
          fst (fst (mediate_group_conversation self http d gid recent uid)) =
            Some msg_call_exception) \<and>
         \<not> snd (fst (mediate_group_conversation self http d gid recent uid))"
proof -
  let ?p = "Group_mediation g (group_users d recent)
              (group_conversation (group_users d recent) recent)"
  from assms(2) have "oracle_failure self (http ?p)" by blast
  from call_llm_api_failure [of self http ?p, OF this]
  consider "call_llm_api self http ?p = Some msg_no_api_key"
    | "call_llm_api self http ?p = Some msg_api_error"
    | "call_llm_api self http ?p = Some msg_call_exception"
    by blast
  then show ?thesis
  proof cases
    case 1
    from mediate_group_conversation_alert [OF assms(1) 1] show ?thesis
      by (simp add: no_alert_in_no_api_key)
  next
    case 2
    from mediate_group_conversation_alert [OF assms(1) 2] show ?thesis
      by (simp add: no_alert_in_api_error)
  next
    case 3
    from mediate_group_conversation_alert [OF assms(1) 3] show ?thesis
      by (simp add: no_alert_in_call_exception)
  qed
qed

lemma provide_individual_support_alert:
  assumes "get_user d uid = Some u" and "role u = str ''autista''"
  shows "snd (fst (provide_individual_support self http d uid txt)) =
           analyze_for_alert self txt []"
  using assms by (simp add: provide_individual_support_def Let_def)

lemma provide_individual_support_reply:
  assumes "get_user d uid = Some u" and "role u = str ''autista''"
  shows "fst (fst (provide_individual_support self http d uid txt)) =
           call_llm_api self http
             (Individual_support u
                (support_conversation uid (get_recent_messages d None (Some uid) 10)))"
  using assms by (simp add: provide_individual_support_def Let_def)

text \<open>
  C3, as amended. Every failure of the Oracle is turned into one of three fixed strings
  by the call itself and nothing is raised; both handlers have stored the message; the
  private path decides the alert on the user's own message. The group path decides the
  alert on the string the Oracle call returned: when the Oracle fails this is the
  placeholder, which holds no alert keyword, so the group path raises no alert then,
  whatever the inbound message says.
\<close>

theorem oracle_failure_contained:
  "(oracle_failure self (http p) \<longrightarrow>
      call_llm_api self http p = Some msg_no_api_key \<or>
      call_llm_api self http p = Some msg_api_error \<or>
      call_llm_api self http p = Some msg_call_exception) \<and>
   messages (db (handle_group_message self w upd st)) =
     messages (db st) @
       [\<lparr>sender = from_user upd, in_group = Some (chat_id upd), message_text = upd_text upd,
         message_type = str ''text'', timestamp = t_store w\<rparr>] \<and>
   messages (db (handle_private_message self w upd st)) =
     messages (db st) @
       [\<lparr>sender = from_user upd, in_group = None, message_text = upd_text upd,
         message_type = str ''text'', timestamp = t_store w\<rparr>] \<and>
   (get_user d uid = Some u \<and> role u = str ''autista'' \<longrightarrow>
      snd (fst (provide_individual_support self http' d uid txt)) =
        analyze_for_alert self txt []) \<and>
   (get_group d gid = Some g \<and> (\<forall>q. oracle_failure self (http' q)) \<longrightarrow>
      (fst (fst (mediate_group_conversation self http' d gid recent uid)) = Some msg_no_api_key \<or>
       fst (fst (mediate_group_conversation self http' d gid recent uid)) = Some msg_api_error \<or>
       fst (fst (mediate_group_conversation self http' d gid recent uid)) =
         Some msg_call_exception) \<and>
      \<not> snd (fst (mediate_group_conversation self http' d gid recent uid))) \<and>
   (get_group d gid = Some g \<and>
    call_llm_api self http'
      (Group_mediation g (group_users d recent)
         (group_conversation (group_users d recent) recent)) = Some r \<longrightarrow>
      snd (fst (mediate_group_conversation self http' d gid recent uid)) =
        analyze_for_alert self r recent)"
  using call_llm_api_failure [of self http p]
    provide_individual_support_alert [of d uid u self http' "txt"]
    mediate_group_conversation_failure [of d gid g self http' recent uid]
    mediate_group_conversation_alert [of d gid g self http' recent r uid]
  by (simp add: handle_group_message_stores handle_private_message_stores)

theorem oracle_failure_contained_witness:
  "call_llm_api example_llm_no_key (\<lambda>q. Request_exception) (str ''prompt'') =
     Some msg_no_api_key \<and>
   messages (db (handle_group_message example_llm_no_key (example_world 5 Request_exception)
      (group_text 100 (str ''socorro'')) example_bot)) =
     [\<lparr>sender = 1, in_group = Some 100, message_text = str ''socorro'',
       message_type = str ''text'', timestamp = 5\<rparr>] \<and>
   messages (db (handle_private_message example_llm_no_key (example_world 5 Request_exception)
      (group_text 100 (str ''socorro'')) example_bot)) =
     [\<lparr>sender = 1, in_group = None, message_text = str ''socorro'',
       message_type = str ''text'', timestamp = 5\<rparr>] \<and>
   snd (fst (provide_individual_support example_llm_no_key (\<lambda>q. Request_exception)
      example_db 1 (str ''socorro''))) \<and>
   \<not> snd (fst (mediate_group_conversation example_llm_no_key (\<lambda>q. Request_exception)
      example_db 100 [] 1))"
proof -
  note inst = oracle_failure_contained [of example_llm_no_key "\<lambda>q. Request_exception"
      "str ''prompt''" "example_world 5 Request_exception" "group_text 100 (str ''socorro'')"
      example_bot example_db 1
      "\<lparr>user_id = 1, user_name = str ''Ana'', role = str ''autista'', groups = [100, 101, 102]\<rparr>"
      "\<lambda>q. Request_exception" "str ''socorro''" 100 "example_group 100 (str ''Xadrez'') 2"
      "[]" msg_no_api_key]
  have failing: "\<forall>q. oracle_failure example_llm_no_key Request_exception"
    by (simp add: oracle_failure_def)
  have ana: "get_user example_db 1 =
      Some \<lparr>user_id = 1, user_name = str ''Ana'', role = str ''autista'', groups = [100, 101, 102]\<rparr>"
    by (simp add: get_user_def example_db_def)
  have xadrez: "get_group example_db 100 = Some (example_group 100 (str ''Xadrez'') 2)"
    by (simp add: get_group_def example_db_def example_group_def)
  have alert: "analyze_for_alert example_llm_no_key (str ''socorro'') []"
    by (simp add: analyze_for_alert_def alert_keywords_def lower_def lower_cp_def str_def)
  have call: "call_llm_api example_llm_no_key (\<lambda>q. Request_exception) (str ''prompt'') =
     Some msg_no_api_key"
    by (simp add: call_llm_api_def example_llm_no_key_def)
  from inst failing ana xadrez alert call show ?thesis
    by (simp add: example_bot_def example_db_def example_world_def group_text_def)
qed

text \<open>
  The property as the specification states it fails in the group path. Ana writes
  "socorro" in the group Xadrez while the credential is missing: the text triggers the
  alert policy, but the policy is run on the placeholder, so the only message sent is
  the placeholder to the group and the facilitator gets no alert.
\<close>

theorem group_alert_on_placeholder_counterexample:
  "analyze_for_alert example_llm_no_key (str ''socorro'') [] \<and>
   sent (handle_group_message example_llm_no_key (example_world 5 Request_exception)
      (group_text 100 (str ''socorro'')) example_bot) =
     [(100, Mediator_reply msg_no_api_key)]"
  by (simp add: handle_group_message_def mediate_group_conversation_def Let_def
      example_llm_no_key_def example_llm_def example_bot_def example_db_def example_world_def
      group_text_def get_user_def get_group_def example_group_def call_llm_api_def
      store_message_def should_ai_intervene_def msg_no_api_key_def
      store_ai_interaction_def analyze_for_alert_def alert_keywords_def lower_def lower_cp_def
      str_def)

section \<open>The throttle and the alerts\<close>

lemma notify_ats_sent:
  "sent (notify_ats uname gids notified st) =
     sent st @ map (\<lambda>a. (a, Support_alert uname)) (ats_to_notify (db st) gids notified)"
  by (induction uname gids notified st rule: notify_ats.induct)
     (simp_all add: Let_def split: option.splits)

lemma ats_to_notify_fresh: "set (ats_to_notify d gids notified) \<inter> notified = {}"
  by (induction d gids notified rule: ats_to_notify.induct)
     (auto split: option.splits if_splits)

lemma ats_to_notify_not_in: "a \<in> notified \<Longrightarrow> a \<notin> set (ats_to_notify d gids notified)"
  using ats_to_notify_fresh [of d gids notified] by blast

lemma ats_to_notify_distinct: "distinct (ats_to_notify d gids notified)"
  by (induction d gids notified rule: ats_to_notify.induct)
     (auto simp: ats_to_notify_not_in split: option.splits if_splits)

lemma ats_to_notify_set:
  "set (ats_to_notify d gids notified) =
     {a. a \<noteq> 0 \<and> a \<notin> notified \<and>
         (\<exists>gid \<in> set gids. \<exists>g. get_group d gid = Some g \<and> created_by g = a)}"
  by (induction d gids notified rule: ats_to_notify.induct)
     (auto split: option.splits if_splits)

lemma intervention_group:
  assumes "intervention self (Group_message w upd) st c"
  shows "c = chat_id upd \<and>
         should_ai_intervene c (group_message_timestamps st) (t_check w) \<and>
         group_message_timestamps (handle_group_message self w upd st) =
           (group_message_timestamps st)(c \<mapsto> t_mark w)"
  using assms
  by (auto simp: intervention_def new_messages_def handle_group_message_def Let_def
        store_message_def split: option.splits if_splits)

lemma intervention_private: "\<not> intervention self (Private_message w upd) st c"
  by (auto simp: intervention_def new_messages_def handle_private_message_def Let_def
        store_message_def notify_ats_sent list_ex_iff split: option.splits if_splits)

lemma timestamps_step:
  "group_message_timestamps (handle self e st) c = group_message_timestamps st c \<or>
   (\<exists>w upd. e = Group_message w upd \<and>
      group_message_timestamps (handle self e st) c = Some (t_mark w))"
proof (cases e)
  case (Group_message w upd)
  then show ?thesis
    by (auto simp: handle_group_message_def Let_def store_message_def
        split: option.splits if_splits)
next
  case (Private_message w upd)
  then show ?thesis
    by (auto simp: handle_private_message_def Let_def store_message_def
        split: option.splits if_splits)
qed

lemma run_append: "run self (es @ es') st = run self es' (run self es st)"
  by (induction es arbitrary: st) simp_all

lemma timestamps_run:
  assumes "group_message_timestamps st c = Some t"
    and "\<forall>e \<in> set es. \<forall>x \<in> set (readings e). t \<le> x"
    and "clock_monotone es"
  shows "\<exists>t'. group_message_timestamps (run self es st) c = Some t' \<and> t \<le> t'"
  using assms
proof (induction es arbitrary: st t)
  case Nil
  then show ?case by simp
next
  case (Cons e es)
  from Cons.prems(3) have mono: "clock_monotone es"
    and later: "\<forall>x \<in> set (readings e). \<forall>e' \<in> set es. \<forall>y \<in> set (readings e'). x \<le> y"
    by (auto simp: clock_monotone_def sorted_append)
  from timestamps_step [of self e st c]
  obtain t1 where t1: "group_message_timestamps (handle self e st) c = Some t1" "t \<le> t1"
    and bound: "\<forall>e' \<in> set es. \<forall>y \<in> set (readings e'). t1 \<le> y"
  proof
    assume "group_message_timestamps (handle self e st) c = group_message_timestamps st c"
    with Cons.prems(1,2) that show thesis by simp
  next
    assume "\<exists>w upd. e = Group_message w upd \<and>
              group_message_timestamps (handle self e st) c = Some (t_mark w)"
    then obtain w upd where e: "e = Group_message w upd"
      and m: "group_message_timestamps (handle self e st) c = Some (t_mark w)" by blast
    from Cons.prems(2) e have "t \<le> t_mark w" by simp
    moreover from later e have "\<forall>e' \<in> set es. \<forall>y \<in> set (readings e'). t_mark w \<le> y"
      by simp
    ultimately show thesis using m that by blast
  qed
  from Cons.IH [OF t1(1) bound mono] obtain t' where
    "group_message_timestamps (run self es (handle self e st)) c = Some t'" "t1 \<le> t'"
    by blast
  with t1(2) show ?case by auto
qed

lemma clock_monotone_between:
  assumes "clock_monotone (before @ Group_message w1 upd1 # mid @ rest)"
  shows "\<forall>e \<in> set mid. \<forall>x \<in> set (readings e). t_mark w1 \<le> x" and "clock_monotone mid"
  using assms by (auto simp: clock_monotone_def sorted_append)

text \<open>
  C5. Interventions in one group are more than five minutes apart. First, for a single
  group message: a mediator reply is sent only into the chat of the message and only if
  the group has no last-intervention timestamp or the clock read at the check is more
  than five minutes past it, and whenever the reply is sent the timestamp of the group
  is set to the clock read after the sending. Second, over any run of group and private
  messages with a monotone clock: if two events of the run both send a mediator reply
  into the same chat, both are group messages of that chat, and the clock read at the
  check of the later one is more than five minutes past the clock read after the sending
  of the earlier one; the two replies, sent in between, are therefore more than five
  minutes apart.
\<close>

theorem throttle:
  "(intervention self (Group_message w upd) st c \<longrightarrow>
      c = chat_id upd \<and>
      (group_message_timestamps st c = None \<or>
       (\<exists>last. group_message_timestamps st c = Some last \<and> t_check w - last > five_minutes)) \<and>
      group_message_timestamps (handle self (Group_message w upd) st) c = Some (t_mark w)) \<and>
   (clock_monotone (before @ e1 # mid @ e2 # rest) \<and>
    intervention self e1 (run self before st) c \<and>
    intervention self e2 (run self (before @ e1 # mid) st) c \<longrightarrow>
      (\<exists>w1 upd1 w2 upd2. e1 = Group_message w1 upd1 \<and> e2 = Group_message w2 upd2 \<and>
         chat_id upd1 = c \<and> chat_id upd2 = c \<and> t_check w2 - t_mark w1 > five_minutes))"
proof (intro conjI impI)
  assume i: "intervention self (Group_message w upd) st c"
  from intervention_group [OF i] show "c = chat_id upd" by simp
  from intervention_group [OF i]
  show "group_message_timestamps st c = None \<or>
       (\<exists>last. group_message_timestamps st c = Some last \<and> t_check w - last > five_minutes)"
    by (auto simp: should_ai_intervene_def split: option.splits)
  from intervention_group [OF i]
  show "group_message_timestamps (handle self (Group_message w upd) st) c = Some (t_mark w)"
    by simp
next
  assume a: "clock_monotone (before @ e1 # mid @ e2 # rest) \<and>
    intervention self e1 (run self before st) c \<and>
    intervention self e2 (run self (before @ e1 # mid) st) c"
  then have mono: "clock_monotone (before @ e1 # mid @ e2 # rest)"
    and i1: "intervention self e1 (run self before st) c"
    and i2: "intervention self e2 (run self (before @ e1 # mid) st) c" by simp_all
  from i1 obtain w1 upd1 where e1: "e1 = Group_message w1 upd1"
    using intervention_private by (cases e1) auto
  from i2 obtain w2 upd2 where e2: "e2 = Group_message w2 upd2"
    using intervention_private by (cases e2) auto
  let ?s1 = "handle self e1 (run self before st)"
  from intervention_group [OF i1 [unfolded e1]]
  have c1: "c = chat_id upd1" and m1: "group_message_timestamps ?s1 c = Some (t_mark w1)"
    by (simp_all add: e1)
  from mono have between: "\<forall>e \<in> set mid. \<forall>x \<in> set (readings e). t_mark w1 \<le> x"
    and mono_mid: "clock_monotone mid"
    using clock_monotone_between [of before w1 upd1 mid "e2 # rest"] by (simp_all add: e1)
  from timestamps_run [OF m1 between mono_mid, of self] obtain t' where
    t': "group_message_timestamps (run self mid ?s1) c = Some t'" "t_mark w1 \<le> t'" by blast
  have s2: "run self (before @ e1 # mid) st = run self mid ?s1"
    by (simp add: run_append)
  from intervention_group [OF i2 [unfolded e2 s2]]
  have c2: "c = chat_id upd2"
    and "should_ai_intervene c (group_message_timestamps (run self mid ?s1)) (t_check w2)"
    by blast+
  with t' have "t_check w2 - t' > five_minutes"
    by (simp add: should_ai_intervene_def)
  with t'(2) have gap: "t_check w2 - t_mark w1 > five_minutes" by simp
  show "\<exists>w1 upd1 w2 upd2. e1 = Group_message w1 upd1 \<and> e2 = Group_message w2 upd2 \<and>
         chat_id upd1 = c \<and> chat_id upd2 = c \<and> t_check w2 - t_mark w1 > five_minutes"
    using e1 e2 c1 c2 gap
    by (intro exI [of _ w1] exI [of _ upd1] exI [of _ w2] exI [of _ upd2]) simp
qed

theorem throttle_witness:
  "intervention example_llm (example_event 0) example_bot 100 \<and>
   group_message_timestamps (handle example_llm (example_event 0) example_bot) 100 = Some 2 \<and>
   clock_monotone [example_event 0, example_event 1000, example_event 400000000] \<and>
   \<not> intervention example_llm (example_event 1000)
       (run example_llm [example_event 0] example_bot) 100 \<and>
   intervention example_llm (example_event 400000000)
     (run example_llm [example_event 0, example_event 1000] example_bot) 100 \<and>
   five_minutes < t_check (example_world 400000000 (Response 200 (Content (str ''Oi'')))) -
                  t_mark (example_world 0 (Response 200 (Content (str ''Oi''))))"
proof -
  note inst = throttle [of example_llm "example_world 0 (Response 200 (Content (str ''Oi'')))"
      "group_text 100 (str ''bom dia'')" example_bot 100 "[]" "example_event 0"
      "[example_event 1000]" "example_event 400000000" "[]"]
  have first: "intervention example_llm (example_event 0) example_bot 100"
    by code_simp
  have second: "\<not> intervention example_llm (example_event 1000)
       (run example_llm [example_event 0] example_bot) 100"
    by code_simp
  have third: "intervention example_llm (example_event 400000000)
     (run example_llm [example_event 0, example_event 1000] example_bot) 100"
    by code_simp
  have mono: "clock_monotone [example_event 0, example_event 1000, example_event 400000000]"
    by (simp add: clock_monotone_def example_event_def example_world_def)
  have gap: "five_minutes <
      t_check (example_world 400000000 (Response 200 (Content (str ''Oi'')))) -
      t_mark (example_world 0 (Response 200 (Content (str ''Oi''))))"
    by (simp add: five_minutes_def example_world_def)
  from inst first have "group_message_timestamps (handle example_llm (example_event 0)
      example_bot) 100 = Some 2"
    by (simp add: example_event_def example_world_def)
  with first second third mono gap show ?thesis by simp
qed

section \<open>Properties of the conversation flows\<close>

lemma send_message_db: "db (send_message c m st) = db st"
  by (simp add: send_message_def)

lemma update_state_db:
  "db (snd (snd (update_state cs upd res))) = db (snd (snd res))"
  by (simp add: update_state_def send_message_db split: sum.splits)

lemma flow_handlers_activities:
  "activities (db (snd (snd (start_activity_command upd ud st)))) = activities (db st)"
  "activities (db (snd (snd (process_activity_group upd ud st)))) = activities (db st)"
  "activities (db (snd (snd (process_activity_type upd ud st)))) = activities (db st)"
  "activities (db (snd (snd (process_activity_title upd ud st)))) = activities (db st)"
  "activities (db (snd (snd (process_activity_desc upd ud st)))) = activities (db st)"
  "activities (db (snd (snd (cancel upd ud st)))) = activities (db st)"
  by (simp_all add: start_activity_command_def process_activity_group_def
      process_activity_type_def process_activity_title_def process_activity_desc_def
      cancel_def send_message_db Let_def split: option.splits list.splits)

lemma activity_creation_handler_activities:
  assumes "activity_creation_handler upd c = Some c'"
  shows "activities (db (snd (snd c'))) = activities (db (snd (snd c)))"
  using assms
  by (auto simp: activity_creation_handler_def Let_def update_state_db flow_handlers_activities
      split: option.splits if_splits)

lemma mediate_frame_activities:
  "activities (snd (mediate_group_conversation self http d gid recent uid)) = activities d"
  by (simp add: mediate_group_conversation_def store_ai_interaction_def Let_def
      split: option.splits)

lemma provide_frame_activities:
  "activities (snd (provide_individual_support self http d uid t)) = activities d"
  by (simp add: provide_individual_support_def store_ai_interaction_def Let_def
      split: option.splits)

lemma notify_ats_db: "db (notify_ats uname gids notified st) = db st"
  by (induction uname gids notified st rule: notify_ats.induct)
     (simp_all add: Let_def send_message_db split: option.splits)

lemma message_handlers_activities:
  "activities (db (handle_group_message self w upd st)) = activities (db st)"
  "activities (db (handle_private_message self w upd st)) = activities (db st)"
  by (simp_all add: handle_group_message_def handle_private_message_def Let_def
      store_message_def mediate_frame_activities provide_frame_activities notify_ats_db
      send_message_db split: option.splits)

lemma dispatch_activities:
  "activities (db (snd (snd (dispatch self w upd c)))) = activities (db (snd (snd c)))"
  using activity_creation_handler_activities [of upd c]
  by (auto simp: dispatch_def message_handlers_activities split: option.splits)

lemma dispatch_all_activities:
  "activities (db (snd (snd (dispatch_all self wus c)))) = activities (db (snd (snd c)))"
  by (induction wus arbitrary: c) (simp_all add: dispatch_activities)

text \<open>
  C1. The flow does not reach the duration. The facilitator Bia starts an activity for
  her group Xadrez and answers every question. After the title the conversation is in
  the state \<open>ACTIVITY_DURATION\<close>, whose registered handler is the one that stores the
  description; it asks for the duration and ends the conversation. The duration "30", a
  well-formed integer in range, is then not taken by the conversation handler, and after
  the whole session the store holds no activity.
\<close>

theorem activity_flow_stores_no_activity:
  "fst (dispatch_all example_llm (take 4 activity_session)
         (None, empty_user_data, example_bot)) = Some ACTIVITY_DURATION \<and>
   fst (dispatch_all example_llm (take 5 activity_session)
         (None, empty_user_data, example_bot)) = None \<and>
   py_int (str ''30'') = Some 30 \<and>
   activity_creation_handler (facilitator_update Text (str ''30''))
     (dispatch_all example_llm (take 5 activity_session)
        (None, empty_user_data, example_bot)) = None \<and>
   activities (db (snd (snd (dispatch_all example_llm activity_session
     (None, empty_user_data, example_bot))))) = []"
proof -
  have four: "fst (dispatch_all example_llm (take 4 activity_session)
         (None, empty_user_data, example_bot)) = Some ACTIVITY_DURATION"
    by (simp add: activity_session_def dispatch_def activity_creation_handler_def is_command_def
      facilitator_update_def update_state_def start_activity_command_def get_user_def
      example_bot_def example_db_def get_all_groups_def example_group_def END_def Let_def
      process_activity_group_def process_activity_type_def process_activity_title_def
      process_activity_desc_def py_int_def strip_def isspace_def digit_value_def decimal_zeros_def
      ACTIVITY_TYPE_def ACTIVITY_TITLE_def ACTIVITY_DESC_def ACTIVITY_DURATION_def
      type_names_def empty_user_data_def str_def)
  have five: "fst (dispatch_all example_llm (take 5 activity_session)
         (None, empty_user_data, example_bot)) = None"
    by (simp add: activity_session_def dispatch_def activity_creation_handler_def is_command_def
      facilitator_update_def update_state_def start_activity_command_def get_user_def
      example_bot_def example_db_def get_all_groups_def example_group_def END_def Let_def
      process_activity_group_def process_activity_type_def process_activity_title_def
      process_activity_desc_def py_int_def strip_def isspace_def digit_value_def decimal_zeros_def
      ACTIVITY_TYPE_def ACTIVITY_TITLE_def ACTIVITY_DESC_def ACTIVITY_DURATION_def
      type_names_def empty_user_data_def str_def)
  have thirty: "py_int (str ''30'') = Some 30"
    by (simp add: py_int_def strip_def isspace_def digit_value_def decimal_zeros_def str_def)
  have not_taken: "activity_creation_handler (facilitator_update Text (str ''30''))
     (dispatch_all example_llm (take 5 activity_session)
        (None, empty_user_data, example_bot)) = None"
    using five
    by (simp add: activity_creation_handler_def Let_def is_command_def facilitator_update_def)
  have none: "activities (db (snd (snd (dispatch_all example_llm activity_session
     (None, empty_user_data, example_bot))))) = []"
    by (simp add: dispatch_all_activities example_bot_def example_db_def)
  from four five thirty not_taken none show ?thesis by simp
qed

lemma update_one_map:
  assumes "\<And>x. f (g x) = f x"
  shows "map f (update_one p g xs) = map f xs"
  by (induction xs) (simp_all add: assms)

lemma toggle_ai_mediator_keeps_flags:
  "map ai_mediator_enabled (db_groups (db (snd (toggle_ai_mediator upd st)))) =
     map ai_mediator_enabled (db_groups (db st))"
  by (simp add: toggle_ai_mediator_def update_group_ai_settings_def update_one_map Let_def
      send_message_def split: list.splits option.splits)

text \<open>
  C2. The choice on the button does not reach the stored flag. Bia creates the group
  Musica, which is stored with the mediator enabled, and presses the button that
  disables the mediator: the handler does not raise, tells her that the mediator is
  disabled for the group, and the stored flag of the group is still true.
\<close>

theorem toggle_off_leaves_mediator_enabled:
  "map_option ai_mediator_enabled (get_group (db created_group_bot) 1700000000) = Some True \<and>
   fst (toggle_ai_mediator (facilitator_update Callback (str ''ai_off_1700000000''))
          created_group_bot) = None \<and>
   last (sent (snd (toggle_ai_mediator (facilitator_update Callback (str ''ai_off_1700000000''))
          created_group_bot))) = (2, Mediator_status False (str ''Musica'')) \<and>
   map_option ai_mediator_enabled
     (get_group
        (db (snd (toggle_ai_mediator (facilitator_update Callback (str ''ai_off_1700000000''))
           created_group_bot)))
        1700000000) = Some True"
  by (simp add: created_group_bot_def process_group_max_def facilitator_update_def
      group_user_data_def empty_user_data_def example_bot_def example_db_def example_group_def
      create_group_def default_settings_def add_to_set_def get_group_def
      toggle_ai_mediator_def update_group_ai_settings_def send_message_def Let_def
      py_int_def strip_def isspace_def digit_value_def decimal_zeros_def str_def)

lemma py_int_boundaries:
  "py_int (str ''2'') = Some 2" "py_int (str ''5'') = Some 5" "py_int (str ''50'') = Some 50"
  "py_int (str ''100'') = Some 100" "py_int (str ''180'') = Some 180"
  by (simp_all add: py_int_def strip_def isspace_def digit_value_def decimal_zeros_def str_def)

lemma process_profile_age_reject:
  assumes "py_int (upd_text upd) = None \<or>
           (\<exists>n. py_int (upd_text upd) = Some n \<and> (n < 5 \<or> 100 < n))"
  shows "process_profile_age upd ud st =
           (Inr PROFILE_AGE, ud,
            send_message (chat_id upd)
              (if py_int (upd_text upd) = None then Age_digits else Age_range) st)"
  using assms by (auto simp: process_profile_age_def PROFILE_AGE_def)

lemma process_profile_age_accept:
  assumes "py_int (upd_text upd) = Some n" and "5 \<le> n" and "n \<le> 100"
  shows "process_profile_age upd ud st =
           (Inr PROFILE_GENDER, ud\<lparr>ud_profile_age := Some n\<rparr>,
            send_message (chat_id upd) Ask_gender st)"
  using assms by (auto simp: process_profile_age_def PROFILE_GENDER_def)

lemma process_group_max_reject:
  assumes "py_int (upd_text upd) = None \<or>
           (\<exists>n. py_int (upd_text upd) = Some n \<and> (n < 2 \<or> 50 < n))"
  shows "process_group_max now_s upd ud st =
           (Inr GROUP_MAX, ud,
            send_message (chat_id upd)
              (if py_int (upd_text upd) = None then Max_members_digits else Max_members_range)
              st)"
  using assms by (auto simp: process_group_max_def GROUP_MAX_def)

lemma process_group_max_accept:
  assumes "py_int (upd_text upd) = Some n" and "2 \<le> n" and "n \<le> 50"
    and "ud_group_name ud = Some gname" and "ud_group_theme ud = Some gtheme"
    and "ud_group_desc ud = Some gdesc"
  shows "process_group_max now_s upd ud st =
           (Inr END, ud\<lparr>ud_group_max := Some n\<rparr>,
            send_message (chat_id upd) (Group_created gname now_s)
              (st\<lparr>db := snd (create_group (db st) now_s gname gtheme gdesc (from_user upd) n)\<rparr>))"
  using assms by (auto simp: process_group_max_def END_def Let_def create_group_def)

lemma process_activity_duration_reject:
  assumes "py_int (upd_text upd) = None \<or>
           (\<exists>n. py_int (upd_text upd) = Some n \<and> (n < 5 \<or> 180 < n))"
  shows "process_activity_duration upd ud st =
           (Inr ACTIVITY_DURATION, ud,
            send_message (chat_id upd)
              (if py_int (upd_text upd) = None then Duration_digits else Duration_range) st)"
  using assms by (auto simp: process_activity_duration_def ACTIVITY_DURATION_def)

lemma process_activity_duration_accept:
  assumes "py_int (upd_text upd) = Some n" and "5 \<le> n" and "n \<le> 180"
    and "ud_activity_group_id ud = Some gid" and "ud_activity_type ud = Some atype"
    and "ud_activity_title ud = Some atitle" and "ud_activity_desc ud = Some adesc"
    and "ud_activity_group_name ud = Some gname"
  shows "process_activity_duration upd ud st =
           (Inr END, ud\<lparr>ud_activity_duration := Some n\<rparr>,
            send_message (chat_id upd)
              (Activity_created atitle gname (length (activities (db st))))
              (st\<lparr>db := snd (create_activity (db st) gid atype atitle adesc (from_user upd) n)\<rparr>))"
  using assms by (auto simp: process_activity_duration_def END_def Let_def create_activity_def)

text \<open>
  C4. Each of the three handlers of a bounded integer field answers a text that
  \<open>int\<close> rejects, or a number below the lower or above the upper bound, by returning
  its own state with the user's dictionary unchanged and a corrective message, the one
  about digits for a text that is no number and the one about the range otherwise. A
  number within the bounds, the bounds included, makes the handler go on: the age
  handler stores the age and returns the gender state; the handler of the maximal number
  of members creates the group and ends the flow; the duration handler creates the
  activity and ends the flow (given the answers of the earlier questions in the
  dictionary). The texts "5", "100", "2", "50" and "180" are read as these numbers, and
  so is a number written with the decimal digits of another script.
\<close>

theorem bounded_integer_fields:
  "(py_int (upd_text upd) = None \<or>
    (\<exists>k. py_int (upd_text upd) = Some k \<and> (k < 5 \<or> 100 < k)) \<longrightarrow>
      process_profile_age upd ud st =
        (Inr PROFILE_AGE, ud,
         send_message (chat_id upd)
           (if py_int (upd_text upd) = None then Age_digits else Age_range) st)) \<and>
   (py_int (upd_text upd) = Some n \<and> 5 \<le> n \<and> n \<le> 100 \<longrightarrow>
      process_profile_age upd ud st =
        (Inr PROFILE_GENDER, ud\<lparr>ud_profile_age := Some n\<rparr>,
         send_message (chat_id upd) Ask_gender st)) \<and>
   (py_int (upd_text upd) = None \<or>
    (\<exists>k. py_int (upd_text upd) = Some k \<and> (k < 2 \<or> 50 < k)) \<longrightarrow>
      process_group_max now_s upd ud st =
        (Inr GROUP_MAX, ud,
         send_message (chat_id upd)
           (if py_int (upd_text upd) = None then Max_members_digits else Max_members_range)
           st)) \<and>
   (py_int (upd_text upd) = Some n \<and> 2 \<le> n \<and> n \<le> 50 \<and>
    ud_group_name ud = Some gname \<and> ud_group_theme ud = Some gtheme \<and>
    ud_group_desc ud = Some gdesc \<longrightarrow>
      process_group_max now_s upd ud st =
        (Inr END, ud\<lparr>ud_group_max := Some n\<rparr>,
         send_message (chat_id upd) (Group_created gname now_s)
           (st\<lparr>db := snd (create_group (db st) now_s gname gtheme gdesc (from_user upd) n)\<rparr>))) \<and>
   (py_int (upd_text upd) = None \<or>
    (\<exists>k. py_int (upd_text upd) = Some k \<and> (k < 5 \<or> 180 < k)) \<longrightarrow>
      process_activity_duration upd ud st =
        (Inr ACTIVITY_DURATION, ud,
         send_message (chat_id upd)
           (if py_int (upd_text upd) = None then Duration_digits else Duration_range) st)) \<and>
   (py_int (upd_text upd) = Some n \<and> 5 \<le> n \<and> n \<le> 180 \<and>
    ud_activity_group_id ud = Some gid \<and> ud_activity_type ud = Some atype \<and>
    ud_activity_title ud = Some atitle \<and> ud_activity_desc ud = Some adesc \<and>
    ud_activity_group_name ud = Some aname \<longrightarrow>
      process_activity_duration upd ud st =
        (Inr END, ud\<lparr>ud_activity_duration := Some n\<rparr>,
         send_message (chat_id upd)
           (Activity_created atitle aname (length (activities (db st))))
           (st\<lparr>db := snd (create_activity (db st) gid atype atitle adesc (from_user upd) n)\<rparr>))) \<and>
   py_int (str ''5'') = Some 5 \<and> py_int (str ''100'') = Some 100 \<and>
   py_int (str ''2'') = Some 2 \<and> py_int (str ''50'') = Some 50 \<and>
   py_int (str ''180'') = Some 180 \<and>
   PROFILE_GENDER \<noteq> PROFILE_AGE \<and> END \<noteq> GROUP_MAX \<and> END \<noteq> ACTIVITY_DURATION"
  using process_profile_age_reject [of upd ud st]
    process_profile_age_accept [of upd n ud st]
    process_group_max_reject [of upd now_s ud st]
    process_group_max_accept [of upd n ud gname gtheme gdesc now_s st]
    process_activity_duration_reject [of upd ud st]
    process_activity_duration_accept [of upd n ud gid atype atitle adesc aname st]
  by (simp add: py_int_boundaries PROFILE_GENDER_def PROFILE_AGE_def END_def GROUP_MAX_def
      ACTIVITY_DURATION_def)

theorem bounded_integer_fields_witness:
  "fst (process_profile_age (facilitator_update Text (str ''abc'')) activity_user_data example_bot) = Inr PROFILE_AGE \<and>
   fst (process_group_max 1700000000 (facilitator_update Text (str ''abc'')) activity_user_data example_bot) = Inr GROUP_MAX \<and>
   fst (process_activity_duration (facilitator_update Text (str ''abc'')) activity_user_data example_bot) = Inr ACTIVITY_DURATION \<and>
   fst (process_profile_age (facilitator_update Text (str ''1'')) activity_user_data example_bot) = Inr PROFILE_AGE \<and>
   fst (process_group_max 1700000000 (facilitator_update Text (str ''1'')) activity_user_data example_bot) = Inr GROUP_MAX \<and>
   fst (process_activity_duration (facilitator_update Text (str ''1'')) activity_user_data example_bot) = Inr ACTIVITY_DURATION \<and>
   fst (process_profile_age (facilitator_update Text (str ''200'')) activity_user_data example_bot) = Inr PROFILE_AGE \<and>
   fst (process_group_max 1700000000 (facilitator_update Text (str ''200'')) activity_user_data example_bot) = Inr GROUP_MAX \<and>
   fst (process_activity_duration (facilitator_update Text (str ''200'')) activity_user_data example_bot) = Inr ACTIVITY_DURATION \<and>
   fst (process_profile_age (facilitator_update Text (str ''5'')) activity_user_data example_bot) = Inr PROFILE_GENDER \<and>
   fst (process_group_max 1700000000 (facilitator_update Text (str ''5'')) activity_user_data example_bot) = Inr END \<and>
   fst (process_activity_duration (facilitator_update Text (str ''5'')) activity_user_data example_bot) = Inr END \<and>
   fst (process_profile_age (facilitator_update Text (str ''100'')) activity_user_data example_bot) = Inr PROFILE_GENDER \<and>
   fst (process_group_max 1700000000 (facilitator_update Text (str ''100'')) activity_user_data example_bot) = Inr GROUP_MAX \<and>
   fst (process_activity_duration (facilitator_update Text (str ''100'')) activity_user_data example_bot) = Inr END \<and>
   fst (process_profile_age (facilitator_update Text (str ''2'')) activity_user_data example_bot) = Inr PROFILE_AGE \<and>
   fst (process_group_max 1700000000 (facilitator_update Text (str ''2'')) activity_user_data example_bot) = Inr END \<and>
   fst (process_activity_duration (facilitator_update Text (str ''2'')) activity_user_data example_bot) = Inr ACTIVITY_DURATION \<and>
   fst (process_profile_age (facilitator_update Text (str ''50'')) activity_user_data example_bot) = Inr PROFILE_GENDER \<and>
   fst (process_group_max 1700000000 (facilitator_update Text (str ''50'')) activity_user_data example_bot) = Inr END \<and>
   fst (process_activity_duration (facilitator_update Text (str ''50'')) activity_user_data example_bot) = Inr END \<and>
   fst (process_profile_age (facilitator_update Text (str ''180'')) activity_user_data example_bot) = Inr PROFILE_AGE \<and>
   fst (process_group_max 1700000000 (facilitator_update Text (str ''180'')) activity_user_data example_bot) = Inr GROUP_MAX \<and>
   fst (process_activity_duration (facilitator_update Text (str ''180'')) activity_user_data example_bot) = Inr END \<and>
   py_int [0x665, 0x660] = Some 50 \<and>
   fst (process_profile_age (facilitator_update Text [0x665, 0x660]) activity_user_data example_bot) = Inr PROFILE_GENDER \<and>
   fst (process_group_max 1700000000 (facilitator_update Text [0x665, 0x660]) activity_user_data example_bot) = Inr END \<and>
   fst (process_activity_duration (facilitator_update Text [0x665, 0x660]) activity_user_data example_bot) = Inr END"
proof -
  have p0: "py_int (str ''abc'') = None"
    by (simp add: py_int_def strip_def isspace_def digit_value_def decimal_zeros_def str_def)
  have r0: "fst (process_profile_age (facilitator_update Text (str ''abc'')) activity_user_data example_bot) = Inr PROFILE_AGE \<and>
      fst (process_group_max 1700000000 (facilitator_update Text (str ''abc'')) activity_user_data example_bot) = Inr GROUP_MAX \<and>
      fst (process_activity_duration (facilitator_update Text (str ''abc'')) activity_user_data example_bot) = Inr ACTIVITY_DURATION"
    using p0 bounded_integer_fields [where upd = "facilitator_update Text (str ''abc'')"
        and ud = activity_user_data and st = example_bot and n = 0 and now_s = 1700000000
        and gname = "str ''Musica''" and gtheme = "str ''bandas''"
        and gdesc = "str ''ouvir juntos''" and gid = 100 and atype = "str ''jogo''"
        and atitle = "str ''Torneio''" and adesc = "str ''Partidas curtas''"
        and aname = "str ''Xadrez''"]
    by (simp add: facilitator_update_def activity_user_data_def group_user_data_def
        empty_user_data_def)
  have p1: "py_int (str ''1'') = Some 1"
    by (simp add: py_int_def strip_def isspace_def digit_value_def decimal_zeros_def str_def)
  have r1: "fst (process_profile_age (facilitator_update Text (str ''1'')) activity_user_data example_bot) = Inr PROFILE_AGE \<and>
      fst (process_group_max 1700000000 (facilitator_update Text (str ''1'')) activity_user_data example_bot) = Inr GROUP_MAX \<and>
      fst (process_activity_duration (facilitator_update Text (str ''1'')) activity_user_data example_bot) = Inr ACTIVITY_DURATION"
    using p1 bounded_integer_fields [where upd = "facilitator_update Text (str ''1'')"
        and ud = activity_user_data and st = example_bot and n = 1 and now_s = 1700000000
        and gname = "str ''Musica''" and gtheme = "str ''bandas''"
        and gdesc = "str ''ouvir juntos''" and gid = 100 and atype = "str ''jogo''"
        and atitle = "str ''Torneio''" and adesc = "str ''Partidas curtas''"
        and aname = "str ''Xadrez''"]
    by (simp add: facilitator_update_def activity_user_data_def group_user_data_def
        empty_user_data_def)
  have p200: "py_int (str ''200'') = Some 200"
    by (simp add: py_int_def strip_def isspace_def digit_value_def decimal_zeros_def str_def)
  have r200: "fst (process_profile_age (facilitator_update Text (str ''200'')) activity_user_data example_bot) = Inr PROFILE_AGE \<and>
      fst (process_group_max 1700000000 (facilitator_update Text (str ''200'')) activity_user_data example_bot) = Inr GROUP_MAX \<and>
      fst (process_activity_duration (facilitator_update Text (str ''200'')) activity_user_data example_bot) = Inr ACTIVITY_DURATION"
    using p200 bounded_integer_fields [where upd = "facilitator_update Text (str ''200'')"
        and ud = activity_user_data and st = example_bot and n = 200 and now_s = 1700000000
        and gname = "str ''Musica''" and gtheme = "str ''bandas''"
        and gdesc = "str ''ouvir juntos''" and gid = 100 and atype = "str ''jogo''"
        and atitle = "str ''Torneio''" and adesc = "str ''Partidas curtas''"
        and aname = "str ''Xadrez''"]
    by (simp add: facilitator_update_def activity_user_data_def group_user_data_def
        empty_user_data_def)
  have p5: "py_int (str ''5'') = Some 5"
    by (simp add: py_int_def strip_def isspace_def digit_value_def decimal_zeros_def str_def)
  have r5: "fst (process_profile_age (facilitator_update Text (str ''5'')) activity_user_data example_bot) = Inr PROFILE_GENDER \<and>
      fst (process_group_max 1700000000 (facilitator_update Text (str ''5'')) activity_user_data example_bot) = Inr END \<and>
      fst (process_activity_duration (facilitator_update Text (str ''5'')) activity_user_data example_bot) = Inr END"
    using p5 bounded_integer_fields [where upd = "facilitator_update Text (str ''5'')"
        and ud = activity_user_data and st = example_bot and n = 5 and now_s = 1700000000
        and gname = "str ''Musica''" and gtheme = "str ''bandas''"
        and gdesc = "str ''ouvir juntos''" and gid = 100 and atype = "str ''jogo''"
        and atitle = "str ''Torneio''" and adesc = "str ''Partidas curtas''"
        and aname = "str ''Xadrez''"]
    by (simp add: facilitator_update_def activity_user_data_def group_user_data_def
        empty_user_data_def)
  have p100: "py_int (str ''100'') = Some 100"
    by (simp add: py_int_def strip_def isspace_def digit_value_def decimal_zeros_def str_def)
  have r100: "fst (process_profile_age (facilitator_update Text (str ''100'')) activity_user_data example_bot) = Inr PROFILE_GENDER \<and>
      fst (process_group_max 1700000000 (facilitator_update Text (str ''100'')) activity_user_data example_bot) = Inr GROUP_MAX \<and>
      fst (process_activity_duration (facilitator_update Text (str ''100'')) activity_user_data example_bot) = Inr END"
    using p100 bounded_integer_fields [where upd = "facilitator_update Text (str ''100'')"
        and ud = activity_user_data and st = example_bot and n = 100 and now_s = 1700000000
        and gname = "str ''Musica''" and gtheme = "str ''bandas''"
        and gdesc = "str ''ouvir juntos''" and gid = 100 and atype = "str ''jogo''"
        and atitle = "str ''Torneio''" and adesc = "str ''Partidas curtas''"
        and aname = "str ''Xadrez''"]
    by (simp add: facilitator_update_def activity_user_data_def group_user_data_def
        empty_user_data_def)
  have p2: "py_int (str ''2'') = Some 2"
    by (simp add: py_int_def strip_def isspace_def digit_value_def decimal_zeros_def str_def)
  have r2: "fst (process_profile_age (facilitator_update Text (str ''2'')) activity_user_data example_bot) = Inr PROFILE_AGE \<and>
      fst (process_group_max 1700000000 (facilitator_update Text (str ''2'')) activity_user_data example_bot) = Inr END \<and>
      fst (process_activity_duration (facilitator_update Text (str ''2'')) activity_user_data example_bot) = Inr ACTIVITY_DURATION"
    using p2 bounded_integer_fields [where upd = "facilitator_update Text (str ''2'')"
        and ud = activity_user_data and st = example_bot and n = 2 and now_s = 1700000000
        and gname = "str ''Musica''" and gtheme = "str ''bandas''"
        and gdesc = "str ''ouvir juntos''" and gid = 100 and atype = "str ''jogo''"
        and atitle = "str ''Torneio''" and adesc = "str ''Partidas curtas''"
        and aname = "str ''Xadrez''"]
    by (simp add: facilitator_update_def activity_user_data_def group_user_data_def
        empty_user_data_def)
  have p50: "py_int (str ''50'') = Some 50"
    by (simp add: py_int_def strip_def isspace_def digit_value_def decimal_zeros_def str_def)
  have r50: "fst (process_profile_age (facilitator_update Text (str ''50'')) activity_user_data example_bot) = Inr PROFILE_GENDER \<and>
      fst (process_group_max 1700000000 (facilitator_update Text (str ''50'')) activity_user_data example_bot) = Inr END \<and>
      fst (process_activity_duration (facilitator_update Text (str ''50'')) activity_user_data example_bot) = Inr END"
    using p50 bounded_integer_fields [where upd = "facilitator_update Text (str ''50'')"
        and ud = activity_user_data and st = example_bot and n = 50 and now_s = 1700000000
        and gname = "str ''Musica''" and gtheme = "str ''bandas''"
        and gdesc = "str ''ouvir juntos''" and gid = 100 and atype = "str ''jogo''"
        and atitle = "str ''Torneio''" and adesc = "str ''Partidas curtas''"
        and aname = "str ''Xadrez''"]
    by (simp add: facilitator_update_def activity_user_data_def group_user_data_def
        empty_user_data_def)
  have p180: "py_int (str ''180'') = Some 180"
    by (simp add: py_int_def strip_def isspace_def digit_value_def decimal_zeros_def str_def)
  have r180: "fst (process_profile_age (facilitator_update Text (str ''180'')) activity_user_data example_bot) = Inr PROFILE_AGE \<and>
      fst (process_group_max 1700000000 (facilitator_update Text (str ''180'')) activity_user_data example_bot) = Inr GROUP_MAX \<and>
      fst (process_activity_duration (facilitator_update Text (str ''180'')) activity_user_data example_bot) = Inr END"
    using p180 bounded_integer_fields [where upd = "facilitator_update Text (str ''180'')"
        and ud = activity_user_data and st = example_bot and n = 180 and now_s = 1700000000
        and gname = "str ''Musica''" and gtheme = "str ''bandas''"
        and gdesc = "str ''ouvir juntos''" and gid = 100 and atype = "str ''jogo''"
        and atitle = "str ''Torneio''" and adesc = "str ''Partidas curtas''"
        and aname = "str ''Xadrez''"]
    by (simp add: facilitator_update_def activity_user_data_def group_user_data_def
        empty_user_data_def)
  have arabic: "py_int [0x665, 0x660] = Some 50"
    by (simp add: py_int_def strip_def isspace_def digit_value_def decimal_zeros_def)
  have r_arabic: "fst (process_profile_age (facilitator_update Text [0x665, 0x660]) activity_user_data example_bot) = Inr PROFILE_GENDER \<and>
      fst (process_group_max 1700000000 (facilitator_update Text [0x665, 0x660]) activity_user_data example_bot) = Inr END \<and>
      fst (process_activity_duration (facilitator_update Text [0x665, 0x660]) activity_user_data example_bot) = Inr END"
    using arabic bounded_integer_fields [where upd = "facilitator_update Text [0x665, 0x660]"
        and ud = activity_user_data and st = example_bot and n = 50 and now_s = 1700000000
        and gname = "str ''Musica''" and gtheme = "str ''bandas''"
        and gdesc = "str ''ouvir juntos''" and gid = 100 and atype = "str ''jogo''"
        and atitle = "str ''Torneio''" and adesc = "str ''Partidas curtas''"
        and aname = "str ''Xadrez''"]
    by (simp add: facilitator_update_def activity_user_data_def group_user_data_def
        empty_user_data_def)
  from r0 r1 r200 r5 r100 r2 r50 r180 arabic r_arabic show ?thesis by simp
qed

section \<open>The alerts of the private path\<close>

lemma store_message_frame:
  "users (store_message d uid gid t now) = users d"
  "db_groups (store_message d uid gid t now) = db_groups d"
  by (simp_all add: store_message_def)

lemma ats_to_notify_cong:
  assumes "db_groups d' = db_groups d"
  shows "ats_to_notify d' gids notified = ats_to_notify d gids notified"
proof (induction gids arbitrary: notified)
  case Nil
  show ?case by simp
next
  case (Cons gid gids)
  have "get_group d' gid = get_group d gid"
    by (simp add: get_group_def assms)
  with Cons show ?case by (simp split: option.splits)
qed

lemma handle_private_message_alert:
  assumes u: "get_user (db st) (from_user upd) = Some u"
    and r: "role u = str ''autista''"
    and nc: "\<not> startswith (upd_text upd) (str ''/'')"
    and q: "private_chat_sessions st (from_user upd) \<noteq> None \<or> needs_support (upd_text upd)"
    and reply: "\<forall>p. truthy (call_llm_api self (post w) p)"
    and alert: "analyze_for_alert self (upd_text upd) []"
  shows "\<exists>reply_text.
           sent (handle_private_message self w upd st) =
             sent st @ (chat_id upd, Assistant_reply reply_text) #
               map (\<lambda>a. (a, Support_alert (user_name u)))
                 (ats_to_notify (db st) (groups u) {})"
proof -
  let ?d1 = "store_message (db st) (from_user upd) None (upd_text upd) (t_store w)"
  let ?st1 = "st\<lparr>db := ?d1\<rparr>"
  let ?res = "provide_individual_support self (post w) ?d1 (from_user upd) (upd_text upd)"
  have u1: "get_user ?d1 (from_user upd) = Some u"
    using u by (simp add: get_user_def store_message_frame)
  from reply have "truthy (fst (fst ?res))"
    unfolding provide_individual_support_reply [OF u1 r, of self "post w" "upd_text upd"]
    by blast
  then obtain x where x: "fst (fst ?res) = Some x" "x \<noteq> []"
    by (cases "fst (fst ?res)") (simp_all add: truthy_def)
  have a: "snd (fst ?res)"
    using provide_individual_support_alert [OF u1 r, of self "post w" "upd_text upd"] alert
    by simp
  have g: "db_groups (snd ?res) = db_groups (db st)"
    by (simp add: provide_individual_support_frame store_message_frame)
  have "sent (handle_private_message self w upd st) =
          sent st @ (chat_id upd, Assistant_reply x) #
            map (\<lambda>a. (a, Support_alert (user_name u))) (ats_to_notify (snd ?res) (groups u) {})"
    using u1 r nc q x a
    by (simp add: handle_private_message_def Let_def notify_ats_sent)
  with ats_to_notify_cong [OF g] show ?thesis by auto
qed

text \<open>
  C6, as amended. A private message of a registered autistic member that is not a
  command, that qualifies for support (the member has an open support session or the
  text matches the support heuristic), that the Oracle call answers with a reply that is
  not empty, and that triggers the alert policy, is answered with the reply followed by
  one alert to each facilitator of the member's groups: the alerts go to the creators,
  other than 0, of the stored groups on the member's membership list, and no facilitator
  gets two.
\<close>

theorem private_alert_once_per_facilitator:
  assumes "get_user (db st) (from_user upd) = Some u"
    and "role u = str ''autista''"
    and "\<not> startswith (upd_text upd) (str ''/'')"
    and "private_chat_sessions st (from_user upd) \<noteq> None \<or> needs_support (upd_text upd)"
    and "\<forall>p. truthy (call_llm_api self (post w) p)"
    and "analyze_for_alert self (upd_text upd) []"
  shows "\<exists>reply_text ats.
           sent (handle_private_message self w upd st) =
             sent st @ (chat_id upd, Assistant_reply reply_text) #
               map (\<lambda>a. (a, Support_alert (user_name u))) ats \<and>
           distinct ats \<and>
           set ats = {a. a \<noteq> 0 \<and>
                        (\<exists>gid \<in> set (groups u). \<exists>g. get_group (db st) gid = Some g \<and>
                                                    created_by g = a)}"
proof -
  from handle_private_message_alert [OF assms] obtain reply_text where
    "sent (handle_private_message self w upd st) =
       sent st @ (chat_id upd, Assistant_reply reply_text) #
         map (\<lambda>a. (a, Support_alert (user_name u))) (ats_to_notify (db st) (groups u) {})"
    by blast
  moreover have "distinct (ats_to_notify (db st) (groups u) {})"
    by (rule ats_to_notify_distinct)
  moreover have "set (ats_to_notify (db st) (groups u) {}) =
      {a. a \<noteq> 0 \<and> (\<exists>gid \<in> set (groups u). \<exists>g. get_group (db st) gid = Some g \<and>
                                                created_by g = a)}"
    by (simp add: ats_to_notify_set)
  ultimately show ?thesis by blast
qed

theorem private_alert_once_per_facilitator_witness:
  "get_user (db example_bot) (from_user (private_text (str ''socorro, preciso de ajuda''))) =
     Some \<lparr>user_id = 1, user_name = str ''Ana'', role = str ''autista'',
           groups = [100, 101, 102]\<rparr> \<and>
   needs_support (str ''socorro, preciso de ajuda'') \<and>
   analyze_for_alert example_llm (str ''socorro, preciso de ajuda'') [] \<and>
   sent (handle_private_message example_llm
          (example_world 0 (Response 200 (Content (str ''Oi''))))
          (private_text (str ''socorro, preciso de ajuda'')) example_bot) =
     [(1, Assistant_reply (str ''Oi'')), (2, Support_alert (str ''Ana'')),
      (3, Support_alert (str ''Ana''))]"
proof -
  let ?u = "\<lparr>user_id = 1, user_name = str ''Ana'', role = str ''autista'',
           groups = [100, 101, 102]\<rparr>"
  let ?upd = "private_text (str ''socorro, preciso de ajuda'')"
  let ?w = "example_world 0 (Response 200 (Content (str ''Oi'')))"
  have ana: "get_user (db example_bot) (from_user ?upd) = Some ?u"
    by (simp add: get_user_def example_bot_def example_db_def private_text_def)
  have autista: "role ?u = str ''autista''" by simp
  have no_command: "\<not> startswith (upd_text ?upd) (str ''/'')"
    by (simp add: private_text_def str_def)
  have support: "needs_support (str ''socorro, preciso de ajuda'')"
    by (simp add: needs_support_def support_keywords_def lower_def lower_cp_def str_def)
  then have qualifies: "private_chat_sessions example_bot (from_user ?upd) \<noteq> None \<or>
      needs_support (upd_text ?upd)"
    by (simp add: private_text_def)
  have replies: "\<forall>p. truthy (call_llm_api example_llm (post ?w) p)"
    by (simp add: call_llm_api_def truthy_def example_world_def example_llm_def str_def)
  have alert: "analyze_for_alert example_llm (str ''socorro, preciso de ajuda'') []"
    by (simp add: analyze_for_alert_def alert_keywords_def lower_def lower_cp_def str_def)
  then have alert': "analyze_for_alert example_llm (upd_text ?upd) []"
    by (simp add: private_text_def)
  note inst = private_alert_once_per_facilitator
    [OF ana autista no_command qualifies replies alert']
  have "sent (handle_private_message example_llm ?w ?upd example_bot) =
     [(1, Assistant_reply (str ''Oi'')), (2, Support_alert (str ''Ana'')),
      (3, Support_alert (str ''Ana''))]"
    by (simp add: handle_private_message_def provide_individual_support_def Let_def
        private_text_def example_world_def example_bot_def example_db_def example_group_def
        example_llm_def store_message_def get_user_def get_group_def call_llm_api_def
        needs_support_def support_keywords_def analyze_for_alert_def alert_keywords_def
        lower_def lower_cp_def store_ai_interaction_def str_def)
  with inst ana support alert show ?thesis by simp
qed

text \<open>
  The property as the specification states it fails for a message that triggers the
  alert policy without qualifying for support. Ana, who has no open support session,
  writes "socorro": the alert policy answers true, the support heuristic false, and
  nothing is sent, neither a reply nor an alert to Bia or Caio.
\<close>

theorem alert_without_support_counterexample:
  "get_user (db example_bot) 1 =
     Some \<lparr>user_id = 1, user_name = str ''Ana'', role = str ''autista'',
           groups = [100, 101, 102]\<rparr> \<and>
   analyze_for_alert example_llm (str ''socorro'') [] \<and>
   \<not> needs_support (str ''socorro'') \<and>
   sent (handle_private_message example_llm
          (example_world 0 (Response 200 (Content (str ''Oi''))))
          (private_text (str ''socorro'')) example_bot) = []"
  by (simp add: handle_private_message_def Let_def
        private_text_def example_world_def example_bot_def example_db_def example_group_def
        example_llm_def store_message_def get_user_def
        needs_support_def support_keywords_def analyze_for_alert_def alert_keywords_def
        lower_def lower_cp_def str_def)

section \<open>The history of the private path\<close>

lemma sorted_descending_rev:
  "sorted (map (\<lambda>m. - timestamp m) ms) \<Longrightarrow> sorted (map timestamp (rev ms))"
proof (induction ms)
  case Nil
  show ?case by simp
next
  case (Cons m ms)
  then show ?case by (auto simp: sorted_append)
qed

lemma recent_link:
  "get_recent_messages d None (Some uid) 10 =
     take 10 (sort_key (\<lambda>m. - timestamp m) (filter (\<lambda>m. sender m = uid) (messages d)))"
  by (simp add: get_recent_messages_def)

lemma take_sort_key_newest:
  fixes ms :: "message list"
  defines "s \<equiv> sort_key (\<lambda>m. - timestamp m) ms"
  shows "mset (take n s) \<subseteq># mset ms"
    and "mset ms - mset (take n s) = mset (drop n s)"
    and "sorted (map (\<lambda>m. - timestamp m) (take n s))"
    and "\<forall>m \<in> set (drop n s). \<forall>r \<in> set (take n s). timestamp m \<le> timestamp r"
proof -
  have parts: "mset (take n s) + mset (drop n s) = mset ms"
    unfolding s_def by (metis append_take_drop_id mset_append mset_sort)
  then show "mset (take n s) \<subseteq># mset ms"
    by (metis mset_subset_eq_add_left)
  from parts show "mset ms - mset (take n s) = mset (drop n s)"
    by (metis add_diff_cancel_left')
  have sorted_all: "sorted (map (\<lambda>m. - timestamp m) (take n s @ drop n s))"
    unfolding s_def by simp
  from sorted_all [unfolded map_append sorted_append]
  show "sorted (map (\<lambda>m. - timestamp m) (take n s))"
    by blast
  from sorted_all [unfolded map_append sorted_append]
  have "\<forall>x \<in> set (map (\<lambda>m. - timestamp m) (take n s)).
          \<forall>y \<in> set (map (\<lambda>m. - timestamp m) (drop n s)). x \<le> y"
    by blast
  then show "\<forall>m \<in> set (drop n s). \<forall>r \<in> set (take n s). timestamp m \<le> timestamp r"
    by fastforce
qed

text \<open>
  C8. The history handed to the Oracle in the private path. Let \<open>mine\<close> be the stored
  messages of the sender, \<open>recent\<close> what the store returns and \<open>conversation\<close> the
  history built from it. Then \<open>recent\<close> holds ten of the sender's messages (all of
  them when there are fewer), newest first, and no stored message of the sender that was
  left out is newer than one that was taken. The history lists them in reversed order,
  so oldest first, each with its text and with the role "user" when its sender is the
  user and "assistant" otherwise; as the store was asked for the sender's messages the
  role is "user" throughout. This history is part of the prompt the Oracle is called on.
\<close>

theorem support_context:
  "let mine = filter (\<lambda>m. sender m = uid) (messages d);
       recent = get_recent_messages d None (Some uid) 10;
       conversation = support_conversation uid recent
   in length recent = min 10 (length mine) \<and>
      mset recent \<subseteq># mset mine \<and>
      sorted (map (\<lambda>m. - timestamp m) recent) \<and>
      (\<forall>m \<in># mset mine - mset recent. \<forall>r \<in> set recent. timestamp m \<le> timestamp r) \<and>
      conversation =
        map (\<lambda>m. \<lparr>turn_role = (if sender m = uid then str ''user'' else str ''assistant''),
                   turn_name = None, turn_content = message_text m\<rparr>)
          (rev recent) \<and>
      sorted (map timestamp (rev recent)) \<and>
      (\<forall>t \<in> set conversation. turn_role t = str ''user'') \<and>
      (get_user d uid = Some u \<and> role u = str ''autista'' \<longrightarrow>
         fst (fst (provide_individual_support self http d uid txt)) =
           call_llm_api self http (Individual_support u conversation))"
proof -
  define mine where "mine = filter (\<lambda>m. sender m = uid) (messages d)"
  define recent where "recent = get_recent_messages d None (Some uid) 10"
  define conversation where "conversation = support_conversation uid recent"
  have link: "recent = take 10 (sort_key (\<lambda>m. - timestamp m) mine)"
    by (simp add: recent_def mine_def recent_link)
  have len: "length recent = min 10 (length mine)"
    by (simp add: link min.commute)
  have sub: "mset recent \<subseteq># mset mine"
    unfolding link by (rule take_sort_key_newest(1))
  have newest_first: "sorted (map (\<lambda>m. - timestamp m) recent)"
    unfolding link by (rule take_sort_key_newest(3))
  have rest: "mset mine - mset recent = mset (drop 10 (sort_key (\<lambda>m. - timestamp m) mine))"
    unfolding link by (rule take_sort_key_newest(2))
  have most_recent: "\<forall>m \<in># mset mine - mset recent. \<forall>r \<in> set recent. timestamp m \<le> timestamp r"
    unfolding rest using take_sort_key_newest(4) [of 10 mine] by (simp add: link)
  have conv: "conversation =
        map (\<lambda>m. \<lparr>turn_role = (if sender m = uid then str ''user'' else str ''assistant''),
                   turn_name = None, turn_content = message_text m\<rparr>)
          (rev recent)"
    by (simp add: conversation_def support_conversation_def if_distrib cong: if_cong)
  have oldest_first: "sorted (map timestamp (rev recent))"
    using newest_first by (rule sorted_descending_rev)
  have "set recent \<subseteq> set mine"
    using sub by (rule set_mset_mono [of "mset recent" "mset mine", simplified])
  then have own: "\<forall>m \<in> set recent. sender m = uid"
    by (auto simp: mine_def)
  have users_only: "\<forall>t \<in> set conversation. turn_role t = str ''user''"
    using own by (auto simp: conv)
  have prompt_fact: "get_user d uid = Some u \<and> role u = str ''autista'' \<longrightarrow>
         fst (fst (provide_individual_support self http d uid txt)) =
           call_llm_api self http (Individual_support u conversation)"
    using provide_individual_support_reply [of d uid u self http "txt"]
    by (simp add: conversation_def recent_def)
  from len sub newest_first most_recent conv oldest_first users_only prompt_fact
  show ?thesis
    unfolding Let_def mine_def [symmetric] recent_def [symmetric] conversation_def [symmetric]
    by blast
qed

theorem support_context_witness:
  "length (get_recent_messages example_log_db None (Some 1) 10) = 10 \<and>
   map timestamp (get_recent_messages example_log_db None (Some 1) 10) =
     [11, 10, 9, 8, 7, 6, 5, 4, 2, 1] \<and>
   map turn_content (support_conversation 1 (get_recent_messages example_log_db None (Some 1) 10)) =
     [str ''B'', str ''C'', str ''E'', str ''F'', str ''G'', str ''H'', str ''I'', str ''J'',
      str ''K'', str ''L''] \<and>
   set (map turn_role
     (support_conversation 1 (get_recent_messages example_log_db None (Some 1) 10))) =
     {str ''user''} \<and>
   fst (fst (provide_individual_support example_llm (\<lambda>p. Response 200 (Content (str ''Oi'')))
     example_log_db 1 (str ''preciso de ajuda''))) = Some (str ''Oi'')"
proof -
  note inst = support_context [of 1 example_log_db
      "\<lparr>user_id = 1, user_name = str ''Ana'', role = str ''autista'', groups = [100, 101, 102]\<rparr>"
      example_llm "\<lambda>p. Response 200 (Content (str ''Oi''))" "str ''preciso de ajuda''"]
  have recent: "get_recent_messages example_log_db None (Some 1) 10 =
      [example_message 1 76 11, example_message 1 75 10, example_message 1 74 9,
       example_message 1 73 8, example_message 1 72 7, example_message 1 71 6,
       example_message 1 70 5, example_message 1 69 4, example_message 1 67 2,
       example_message 1 66 1]"
    by (simp add: get_recent_messages_def example_log_db_def example_message_def)
  have reply: "fst (fst (provide_individual_support example_llm
      (\<lambda>p. Response 200 (Content (str ''Oi''))) example_log_db 1 (str ''preciso de ajuda''))) =
      Some (str ''Oi'')"
    by (simp add: provide_individual_support_def get_user_def example_log_db_def example_db_def
        call_llm_api_def example_llm_def Let_def str_def)
  from recent reply have evaluated:
    "length (get_recent_messages example_log_db None (Some 1) 10) = 10 \<and>
     map timestamp (get_recent_messages example_log_db None (Some 1) 10) =
       [11, 10, 9, 8, 7, 6, 5, 4, 2, 1] \<and>
     map turn_content
       (support_conversation 1 (get_recent_messages example_log_db None (Some 1) 10)) =
       [str ''B'', str ''C'', str ''E'', str ''F'', str ''G'', str ''H'', str ''I'', str ''J'',
        str ''K'', str ''L''] \<and>
     set (map turn_role
       (support_conversation 1 (get_recent_messages example_log_db None (Some 1) 10))) =
       {str ''user''} \<and>
     fst (fst (provide_individual_support example_llm
       (\<lambda>p. Response 200 (Content (str ''Oi''))) example_log_db 1
       (str ''preciso de ajuda''))) = Some (str ''Oi'')"
    by (simp add: support_conversation_def example_message_def str_def Let_def)
  from inst evaluated show ?thesis by blast
qed

section \<open>The guard on the reply\<close>








end
